theory Spec2Isabelle
  imports Complex_Main
begin

section \<open>Strings and numbers of the host language\<close>

text \<open>
  The plugin is TypeScript. A string is modelled as a \<^typ>\<open>string\<close>, the list of its code
  units; the model covers the code units below 256, so the white space that
  \<^verbatim>\<open>String.prototype.trim\<close> and \<^verbatim>\<open>parseInt\<close> strip is TAB, LF, VT, FF, CR, SP and
  NBSP (the members of the ECMAScript WhiteSpace and LineTerminator classes in that range).
\<close>

definition isWhiteSpace :: "char \<Rightarrow> bool" where
  "isWhiteSpace c = ((of_char c :: nat) \<in> {9, 10, 11, 12, 13, 32, 160})"

text \<open>\<^verbatim>\<open>s.trim()\<close>: white space removed from both ends.\<close>

definition trim :: "string \<Rightarrow> string" where
  "trim s = rev (dropWhile isWhiteSpace (rev (dropWhile isWhiteSpace s)))"

text \<open>The character class \<^verbatim>\<open>[a-zA-Z0-9]\<close> of the two regular expressions.\<close>

definition isAlnum :: "char \<Rightarrow> bool" where
  "isAlnum c = (let n = (of_char c :: nat) in
     (97 \<le> n \<and> n \<le> 122) \<or> (65 \<le> n \<and> n \<le> 90) \<or> (48 \<le> n \<and> n \<le> 57))"

text \<open>\<^verbatim>\<open>/^sk-[a-zA-Z0-9]{48}$/.test(s)\<close>: the whole string is \<^verbatim>\<open>sk-\<close> and 48 alphanumerics.\<close>

definition apiKeyPattern :: "string \<Rightarrow> bool" where
  "apiKeyPattern s = (take 3 s = ''sk-'' \<and> length (drop 3 s) = 48 \<and> list_all isAlnum (drop 3 s))"

text \<open>\<^verbatim>\<open>/^[a-zA-Z0-9]{20,}$/.test(s)\<close>.\<close>

definition orgIdPattern :: "string \<Rightarrow> bool" where
  "orgIdPattern s = (20 \<le> length s \<and> list_all isAlnum s)"

text \<open>
  A Number is an IEEE double. The program only compares numbers, tests them for NaN and for
  truthiness, and prints them, so a number is modelled by the real it denotes (both zeros
  are \<open>Fin 0\<close>), the two infinities, or NaN. Every double is one of these values; the
  theorems below hold for all of them.
\<close>

datatype jsnum = NaN | NegInf | Fin real | PosInf

text \<open>The operator \<^verbatim>\<open><\<close> on Numbers (\<^verbatim>\<open>a > b\<close> is \<open>num_lt b a\<close>): false when a side is NaN.\<close>

fun num_lt :: "jsnum \<Rightarrow> jsnum \<Rightarrow> bool" where
  "num_lt NaN y = False"
| "num_lt x NaN = False"
| "num_lt NegInf NegInf = False"
| "num_lt NegInf y = True"
| "num_lt (Fin a) (Fin b) = (a < b)"
| "num_lt (Fin a) PosInf = True"
| "num_lt (Fin a) NegInf = False"
| "num_lt PosInf y = False"

definition isNaN :: "jsnum \<Rightarrow> bool" where
  "isNaN x = (x = NaN)"

text \<open>Truthiness of a Number: every number but zero and NaN.\<close>

definition numTruthy :: "jsnum \<Rightarrow> bool" where
  "numTruthy x = (x \<noteq> NaN \<and> x \<noteq> Fin 0)"

subsection \<open>parseInt\<close>

text \<open>
  \<^verbatim>\<open>parseInt(s)\<close> with no radix, as ECMAScript defines it: leading white space is skipped,
  one sign is read, a prefix \<^verbatim>\<open>0x\<close> or \<^verbatim>\<open>0X\<close> selects radix 16 (radix 10 otherwise), and the
  longest run of digits of that radix is the number; with no digit the result is NaN.
  \<open>parseIntMV\<close> is the mathematical integer read (\<open>None\<close> for NaN). The engine returns the
  double nearest to it, or an infinity beyond the range of the doubles: that is the same
  integer up to \<open>2 ^ 53\<close>. Beyond \<open>2 ^ 53\<close> the model keeps the integer itself, which lies
  on the same side of the bounds the program compares it with (1 and 8192) as the engine's
  double does.
\<close>

definition isDecDigit :: "char \<Rightarrow> bool" where
  "isDecDigit c = (48 \<le> (of_char c :: nat) \<and> (of_char c :: nat) \<le> 57)"

definition isHexDigit :: "char \<Rightarrow> bool" where
  "isHexDigit c = (let n = (of_char c :: nat) in
     (48 \<le> n \<and> n \<le> 57) \<or> (97 \<le> n \<and> n \<le> 102) \<or> (65 \<le> n \<and> n \<le> 70))"

definition digitVal :: "char \<Rightarrow> nat" where
  "digitVal c = (let n = (of_char c :: nat) in
     if n \<le> 57 then n - 48 else if 97 \<le> n then n - 87 else n - 55)"

definition parseIntMV :: "string \<Rightarrow> int option" where
  "parseIntMV inputString =
     (let S = dropWhile isWhiteSpace inputString;
          neg = (S \<noteq> [] \<and> hd S = CHR ''-'');
          S1 = (if S \<noteq> [] \<and> (hd S = CHR ''+'' \<or> hd S = CHR ''-'') then tl S else S);
          hex = (take 2 S1 = ''0x'' \<or> take 2 S1 = ''0X'');
          S2 = (if hex then drop 2 S1 else S1);
          Z = takeWhile (if hex then isHexDigit else isDecDigit) S2;
          mathInt = foldl (\<lambda>a c. (if hex then 16 else 10) * a + digitVal c) 0 Z
      in if Z = [] then None else Some (if neg then - int mathInt else int mathInt))"

definition parseInt :: "string \<Rightarrow> jsnum" where
  "parseInt s = (case parseIntMV s of None \<Rightarrow> NaN | Some n \<Rightarrow> Fin (of_int n))"

subsection \<open>parseFloat\<close>

text \<open>
  \<^verbatim>\<open>parseFloat(s)\<close>, as ECMAScript defines it: leading white space is skipped, and the
  longest prefix that is a \<^verbatim>\<open>StrDecimalLiteral\<close> is the number: one sign, then \<^verbatim>\<open>Infinity\<close>
  or decimal digits with an optional fraction (\<^verbatim>\<open>12\<close>, \<^verbatim>\<open>12.\<close>, \<^verbatim>\<open>12.5\<close>, \<^verbatim>\<open>.5\<close>) and an optional
  exponent (\<^verbatim>\<open>e\<close> or \<^verbatim>\<open>E\<close>, one sign, digits). With no such prefix the result is NaN. The
  scanners return what they read and the rest of the string, which they did not read.
\<close>

definition digitsValue :: "string \<Rightarrow> nat" where
  "digitsValue ds = foldl (\<lambda>a c. 10 * a + digitVal c) 0 ds"

definition pow10 :: "int \<Rightarrow> real" where
  "pow10 k = (if 0 \<le> k then 10 ^ nat k else 1 / 10 ^ nat (- k))"

text \<open>An exponent part at the start of the string, if there is one: its value and the rest.\<close>

definition scanExponent :: "string \<Rightarrow> int \<times> string" where
  "scanExponent r =
     (if r \<noteq> [] \<and> (hd r = CHR ''e'' \<or> hd r = CHR ''E'') then
        (let r1 = tl r;
             neg = (r1 \<noteq> [] \<and> hd r1 = CHR ''-'');
             r2 = (if r1 \<noteq> [] \<and> (hd r1 = CHR ''+'' \<or> hd r1 = CHR ''-'') then tl r1 else r1);
             ds = takeWhile isDecDigit r2
         in if ds = [] then (0, r)
            else (if neg then - int (digitsValue ds) else int (digitsValue ds),
                  dropWhile isDecDigit r2))
      else (0, r))"

text \<open>The longest unsigned decimal literal at the start of the string: its value and the rest.\<close>

definition scanUnsigned :: "string \<Rightarrow> (real \<times> string) option" where
  "scanUnsigned s =
     (let intPart = takeWhile isDecDigit s;
          afterInt = dropWhile isDecDigit s;
          hasDot = (afterInt \<noteq> [] \<and> hd afterInt = CHR ''.'');
          fracPart = (if hasDot then takeWhile isDecDigit (tl afterInt) else []);
          afterFrac = (if hasDot then dropWhile isDecDigit (tl afterInt) else afterInt)
      in if intPart = [] \<and> fracPart = [] then None
         else (case scanExponent afterFrac of
                 (ex, rest) \<Rightarrow>
                   Some (real (digitsValue (intPart @ fracPart)) * pow10 (ex - int (length fracPart)),
                         rest)))"

datatype floatLit = LitInfinity | LitDecimal real

text \<open>The literal \<^verbatim>\<open>parseFloat\<close> reads: whether its sign is minus, its unsigned value, the rest.\<close>

definition scanFloat :: "string \<Rightarrow> (bool \<times> floatLit \<times> string) option" where
  "scanFloat inputString =
     (let S = dropWhile isWhiteSpace inputString;
          neg = (S \<noteq> [] \<and> hd S = CHR ''-'');
          S1 = (if S \<noteq> [] \<and> (hd S = CHR ''+'' \<or> hd S = CHR ''-'') then tl S else S)
      in if take 8 S1 = ''Infinity'' then Some (neg, LitInfinity, drop 8 S1)
         else (case scanUnsigned S1 of
                 None \<Rightarrow> None
               | Some (v, rest) \<Rightarrow> Some (neg, LitDecimal v, rest)))"

text \<open>
  The value of a decimal literal becomes the nearest double. An integer of magnitude at most
  \<open>2 ^ 53\<close> is a double; the rounding of any other value is floating-point work of the
  engine: the function \<open>toDouble\<close> stands for it.
\<close>

definition roundNumber :: "(real \<Rightarrow> jsnum) \<Rightarrow> real \<Rightarrow> jsnum" where
  "roundNumber toDouble v = (if v \<in> \<int> \<and> \<bar>v\<bar> \<le> 2 ^ 53 then Fin v else toDouble v)"

definition parseFloat :: "(real \<Rightarrow> jsnum) \<Rightarrow> string \<Rightarrow> jsnum" where
  "parseFloat toDouble inputString =
     (case scanFloat inputString of
        None \<Rightarrow> NaN
      | Some (neg, LitInfinity, rest) \<Rightarrow> if neg then NegInf else PosInf
      | Some (neg, LitDecimal v, rest) \<Rightarrow> roundNumber toDouble (if neg then - v else v))"

subsection \<open>Number to string\<close>

text \<open>Decimal digits of a natural number, most significant first.\<close>

fun showNat :: "nat \<Rightarrow> string" where
  "showNat n = (if n < 10 then [''0123456789'' ! n]
                else showNat (n div 10) @ [''0123456789'' ! (n mod 10)])"

definition showInt :: "int \<Rightarrow> string" where
  "showInt i = (if i < 0 then CHR ''-'' # showNat (nat (- i)) else showNat (nat i))"

text \<open>
  \<^verbatim>\<open>Number.prototype.toString()\<close>. An integer of magnitude at most \<open>2 ^ 53\<close> prints as its
  decimal digits, NaN and the infinities by name. The digits of any other double (the
  shortest decimal that reads back as the same double) are floating-point work of the
  engine: the function \<open>fracToString\<close> stands for it.
\<close>

definition numberToString :: "(real \<Rightarrow> string) \<Rightarrow> jsnum \<Rightarrow> string" where
  "numberToString fracToString x =
     (case x of
        NaN \<Rightarrow> ''NaN''
      | PosInf \<Rightarrow> ''Infinity''
      | NegInf \<Rightarrow> ''-Infinity''
      | Fin r \<Rightarrow> if r \<in> \<int> \<and> \<bar>r\<bar> \<le> 2 ^ 53 then showInt \<lfloor>r\<rfloor> else fracToString r)"

text \<open>\<^verbatim>\<open>a || b\<close> on strings: the empty string is falsy.\<close>

definition orElse :: "string \<Rightarrow> string \<Rightarrow> string" where
  "orElse a b = (if a = [] then b else a)"

section \<open>The form utilities (utils.ts)\<close>

text \<open>\<^verbatim>\<open>OpenAISettingsFormState\<close>: every field a raw string.\<close>

record formState =
  form_apiKey :: string
  form_organizationId :: string
  form_model :: string
  form_maxTokens :: string
  form_temperature :: string

text \<open>\<^verbatim>\<open>OpenAISettings\<close>: an optional field that is absent is \<open>None\<close>.\<close>

record settings =
  set_apiKey :: string
  set_organizationId :: "string option"
  set_model :: string
  set_maxTokens :: "jsnum option"
  set_temperature :: "jsnum option"

text \<open>\<^verbatim>\<open>ValidationErrors\<close>: a message for each field in error.\<close>

record validationErrors =
  err_apiKey :: "string option"
  err_organizationId :: "string option"
  err_model :: "string option"
  err_maxTokens :: "string option"
  err_temperature :: "string option"

definition noErrors :: validationErrors where
  "noErrors = \<lparr>err_apiKey = None, err_organizationId = None, err_model = None,
     err_maxTokens = None, err_temperature = None\<rparr>"

definition msgApiKeyRequired :: string where
  "msgApiKeyRequired = ''API Key is required''"

definition msgApiKeyFormat :: string where
  "msgApiKeyFormat = ''Invalid API Key format. Should start with '' @ [CHR 0x22] @ ''sk-''
     @ [CHR 0x22] @ '' and be 51 characters long''"

definition msgMaxTokens :: string where
  "msgMaxTokens = ''Max tokens must be between 1 and 8192''"

definition msgTemperature :: string where
  "msgTemperature = ''Temperature must be between 0 and 2''"

text \<open>\<^verbatim>\<open>validateForm\<close>; \<open>toDouble\<close> is the engine's rounding, which \<^verbatim>\<open>parseFloat\<close> uses.\<close>

definition validateForm :: "(real \<Rightarrow> jsnum) \<Rightarrow> formState \<Rightarrow> validationErrors" where
  "validateForm toDouble formData =
     \<lparr>err_apiKey =
        (if trim (form_apiKey formData) = [] then Some msgApiKeyRequired
         else if \<not> apiKeyPattern (trim (form_apiKey formData)) then Some msgApiKeyFormat
         else None),
      err_organizationId =
        (if trim (form_organizationId formData) \<noteq> []
            \<and> \<not> orgIdPattern (trim (form_organizationId formData))
         then Some ''Invalid Organization ID format'' else None),
      err_model =
        (if form_model formData = [] then Some ''Model selection is required'' else None),
      err_maxTokens =
        (if trim (form_maxTokens formData) \<noteq> [] then
           (let maxTokens = parseInt (form_maxTokens formData) in
            if isNaN maxTokens \<or> num_lt maxTokens (Fin 1) \<or> num_lt (Fin 8192) maxTokens
            then Some msgMaxTokens else None)
         else None),
      err_temperature =
        (if trim (form_temperature formData) \<noteq> [] then
           (let temperature = parseFloat toDouble (form_temperature formData) in
            if isNaN temperature \<or> num_lt temperature (Fin 0) \<or> num_lt (Fin 2) temperature
            then Some msgTemperature else None)
         else None)\<rparr>"

text \<open>\<^verbatim>\<open>formDataToSettings\<close>: the source has no \<^verbatim>\<open>throw\<close>, and every call in it is total.\<close>

definition formDataToSettings :: "(real \<Rightarrow> jsnum) \<Rightarrow> formState \<Rightarrow> settings" where
  "formDataToSettings toDouble formData =
     \<lparr>set_apiKey = trim (form_apiKey formData),
      set_organizationId =
        (if trim (form_organizationId formData) \<noteq> []
         then Some (trim (form_organizationId formData)) else None),
      set_model = form_model formData,
      set_maxTokens =
        (if trim (form_maxTokens formData) \<noteq> [] then
           (let maxTokens = parseInt (form_maxTokens formData) in
            if \<not> isNaN maxTokens then Some maxTokens else None)
         else None),
      set_temperature =
        (if trim (form_temperature formData) \<noteq> [] then
           (let temperature = parseFloat toDouble (form_temperature formData) in
            if \<not> isNaN temperature then Some temperature else None)
         else None)\<rparr>"

text \<open>\<^verbatim>\<open>settingsToFormData\<close>: \<^verbatim>\<open>x?.toString() || ''\<close> is the empty string for an absent field.\<close>

definition settingsToFormData :: "(real \<Rightarrow> string) \<Rightarrow> settings \<Rightarrow> formState" where
  "settingsToFormData fracToString s =
     \<lparr>form_apiKey = orElse (set_apiKey s) [],
      form_organizationId =
        (case set_organizationId s of None \<Rightarrow> [] | Some org \<Rightarrow> orElse org []),
      form_model = orElse (set_model s) ''gpt-4o'',
      form_maxTokens =
        (case set_maxTokens s of None \<Rightarrow> []
         | Some n \<Rightarrow> orElse (numberToString fracToString n) []),
      form_temperature =
        (case set_temperature s of None \<Rightarrow> []
         | Some t \<Rightarrow> orElse (numberToString fracToString t) [])\<rparr>"

text \<open>
  \<^verbatim>\<open>sanitizeApiKey\<close>. \<^verbatim>\<open>substring(0, 7)\<close> is \<open>take 7\<close>; \<^verbatim>\<open>substring(length - 4)\<close> is reached
  only with \<open>10 \<le> length\<close>, where the subtraction does not go below zero.
\<close>

definition sanitizeApiKey :: "string \<Rightarrow> string" where
  "sanitizeApiKey apiKey =
     (if apiKey = [] \<or> length apiKey < 10 then apiKey
      else take 7 apiKey @ ''...'' @ drop (length apiKey - 4) apiKey)"

text \<open>The round trip of a form through the settings object and back.\<close>

definition roundTrip ::
  "(real \<Rightarrow> string) \<Rightarrow> (real \<Rightarrow> jsnum) \<Rightarrow> formState \<Rightarrow> formState"
where
  "roundTrip fracToString toDouble f =
     settingsToFormData fracToString (formDataToSettings toDouble f)"

subsection \<open>Strings that are a numeral throughout\<close>

text \<open>
  The properties of the numeric fields are stated for strings that are a numeral from end
  to end, white space around it apart. \<open>wholeInteger\<close> is the value of a string that is one
  sign at most and decimal digits, and nothing else. \<open>wholeDecimal\<close> holds of a string in
  which the decimal literal that \<^verbatim>\<open>parseFloat\<close> reads is followed by white space only.
\<close>

definition wholeInteger :: "string \<Rightarrow> int option" where
  "wholeInteger s =
     (let t = trim s;
          neg = (t \<noteq> [] \<and> hd t = CHR ''-'');
          ds = (if t \<noteq> [] \<and> (hd t = CHR ''+'' \<or> hd t = CHR ''-'') then tl t else t)
      in if ds \<noteq> [] \<and> list_all isDecDigit ds
         then Some (if neg then - int (digitsValue ds) else int (digitsValue ds))
         else None)"

definition wholeDecimal :: "string \<Rightarrow> bool" where
  "wholeDecimal s =
     (case scanFloat s of
        None \<Rightarrow> False
      | Some (neg, lit, rest) \<Rightarrow> list_all isWhiteSpace rest)"

text \<open>
  The engine prints a number so that it reads back as the same number (ECMAScript requires
  this of \<^verbatim>\<open>Number.prototype.toString\<close> for every finite double).
\<close>

definition readsBack :: "(real \<Rightarrow> jsnum) \<Rightarrow> (real \<Rightarrow> string) \<Rightarrow> jsnum \<Rightarrow> bool" where
  "readsBack toDouble fracToString x =
     (parseFloat toDouble (numberToString fracToString x) = x)"

section \<open>The service (openaiService.ts)\<close>

subsection \<open>Untyped values and exceptions\<close>

text \<open>
  Data read from the network or from storage has the type \<^verbatim>\<open>any\<close>. An object is the list
  of its own properties, each name once.
\<close>

datatype jsval =
    Undefined
  | Null
  | Bool bool
  | Num jsnum
  | Str string
  | Arr "jsval list"
  | Obj "(string \<times> jsval) list"

text \<open>A thrown value: an \<^verbatim>\<open>Error\<close> with its message, or anything else.\<close>

datatype thrown = JsError string | NonError

fun truthy :: "jsval \<Rightarrow> bool" where
  "truthy Undefined = False"
| "truthy Null = False"
| "truthy (Bool b) = b"
| "truthy (Num n) = numTruthy n"
| "truthy (Str s) = (s \<noteq> [])"
| "truthy (Arr xs) = True"
| "truthy (Obj props) = True"

text \<open>
  \<^verbatim>\<open>v.name\<close>: \<open>None\<close> is the TypeError of reading a property of \<^verbatim>\<open>undefined\<close> or
  \<^verbatim>\<open>null\<close>. The names read by the service (\<^verbatim>\<open>apiKey\<close>, \<^verbatim>\<open>model\<close>, \<^verbatim>\<open>organizationId\<close>,
  \<^verbatim>\<open>maxTokens\<close>, \<^verbatim>\<open>temperature\<close>, \<^verbatim>\<open>error\<close>, \<^verbatim>\<open>message\<close>, \<^verbatim>\<open>data\<close>, \<^verbatim>\<open>id\<close>) are on no
  prototype, so a primitive or an array has none of them.
\<close>

fun getProp :: "jsval \<Rightarrow> string \<Rightarrow> jsval option" where
  "getProp Undefined name = None"
| "getProp Null name = None"
| "getProp (Obj props) name =
     Some (case map_of props name of None \<Rightarrow> Undefined | Some v \<Rightarrow> v)"
| "getProp v name = Some Undefined"

text \<open>\<^verbatim>\<open>v?.name\<close>, and \<^verbatim>\<open>v.name\<close> where \<^verbatim>\<open>v\<close> is known not to be nullish.\<close>

definition optChain :: "jsval \<Rightarrow> string \<Rightarrow> jsval" where
  "optChain v name = (case getProp v name of None \<Rightarrow> Undefined | Some x \<Rightarrow> x)"

text \<open>\<^verbatim>\<open>error instanceof Error ? error.message : fallback\<close>.\<close>

definition errorMessage :: "thrown \<Rightarrow> string \<Rightarrow> string" where
  "errorMessage e fallback = (case e of JsError m \<Rightarrow> m | NonError \<Rightarrow> fallback)"

text \<open>
  What the engine supplies: \<^verbatim>\<open>JSON.stringify\<close> on a settings object, \<^verbatim>\<open>JSON.parse\<close>, and
  the message text of the TypeError raised by a failed access \<^verbatim>\<open>v.name\<close> or call
  \<^verbatim>\<open>v.name(...)\<close> (given the value \<^verbatim>\<open>v\<close> and the name).
\<close>

record runtime =
  JSON_stringify :: "settings \<Rightarrow> string"
  JSON_parse :: "string \<Rightarrow> thrown + jsval"
  typeErrorText :: "jsval \<Rightarrow> string \<Rightarrow> string"

subsection \<open>validateSettings\<close>

text \<open>\<^verbatim>\<open>v && typeof v === 'string'\<close> and \<^verbatim>\<open>v && typeof v === 'number'\<close>.\<close>

definition truthyString :: "jsval \<Rightarrow> string option" where
  "truthyString v = (case v of Str s \<Rightarrow> if s \<noteq> [] then Some s else None | _ \<Rightarrow> None)"

definition truthyNumber :: "jsval \<Rightarrow> jsnum option" where
  "truthyNumber v = (case v of Num n \<Rightarrow> if numTruthy n then Some n else None | _ \<Rightarrow> None)"

definition allowedModels :: "string list" where
  "allowedModels = [''gpt-4o'', ''gpt-4'', ''gpt-3.5-turbo'', ''gpt-4-turbo'', ''gpt-4o-mini'']"

text \<open>
  \<^verbatim>\<open>validateSettings\<close>: every \<^verbatim>\<open>throw\<close>, and the TypeError of a nullish \<^verbatim>\<open>data\<close>, is caught
  inside the function and becomes \<^verbatim>\<open>null\<close> (\<open>None\<close>).
\<close>

definition validateSettings :: "jsval \<Rightarrow> settings option" where
  "validateSettings data =
     (case getProp data ''apiKey'' of
        None \<Rightarrow> None
      | Some apiKey \<Rightarrow>
          (case truthyString apiKey of
             None \<Rightarrow> None
           | Some k \<Rightarrow>
               (case truthyString (optChain data ''model'') of
                  None \<Rightarrow> None
                | Some m \<Rightarrow>
                    if m \<notin> set allowedModels then None
                    else Some
                      \<lparr>set_apiKey = k,
                       set_organizationId = truthyString (optChain data ''organizationId''),
                       set_model = m,
                       set_maxTokens = truthyNumber (optChain data ''maxTokens''),
                       set_temperature = truthyNumber (optChain data ''temperature'')\<rparr>)))"

subsection \<open>testConnection\<close>

record request =
  req_url :: string
  req_method :: string
  req_headers :: "(string \<times> string) list"
  req_mode :: string
  req_credentials :: string

text \<open>
  A \<^verbatim>\<open>Response\<close> as the function reads it: \<^verbatim>\<open>ok\<close>, \<^verbatim>\<open>status\<close>, \<^verbatim>\<open>statusText\<close>, and what
  awaiting \<^verbatim>\<open>json()\<close> gives (a parsed body, or the exception of a body that does not parse).
\<close>

record response =
  resp_ok :: bool
  resp_status :: nat
  resp_statusText :: string
  resp_json :: "thrown + jsval"

text \<open>\<^verbatim>\<open>TestConnectionResult\<close>; at run time \<^verbatim>\<open>error\<close> and the members of \<^verbatim>\<open>models\<close> are whatever
  the body held.\<close>

record testConnectionResult =
  tc_success :: bool
  tc_message :: string
  tc_error :: "jsval option"
  tc_models :: "jsval list option"

text \<open>The \<^verbatim>\<open>catch\<close> block of \<^verbatim>\<open>testConnection\<close>.\<close>

definition connectionFailed :: "thrown \<Rightarrow> testConnectionResult" where
  "connectionFailed e =
     \<lparr>tc_success = False, tc_message = ''Connection failed'',
      tc_error = Some (Str (errorMessage e ''Unknown error occurred'')), tc_models = None\<rparr>"

text \<open>
  \<^verbatim>\<open>ms.map(model => model.id)\<close> on an array: the ids, or the first element that is nullish
  (reading its \<^verbatim>\<open>id\<close> throws).
\<close>

fun mapIds :: "jsval list \<Rightarrow> jsval + jsval list" where
  "mapIds [] = Inr []"
| "mapIds (m # ms) =
     (case getProp m ''id'' of
        None \<Rightarrow> Inl m
      | Some v \<Rightarrow> (case mapIds ms of Inl bad \<Rightarrow> Inl bad | Inr vs \<Rightarrow> Inr (v # vs)))"

definition buildRequest :: "string \<Rightarrow> string option \<Rightarrow> request" where
  "buildRequest apiKey organizationId =
     \<lparr>req_url = ''https://api.openai.com/v1'' @ ''/models'',
      req_method = ''GET'',
      req_headers =
        [(''Authorization'', ''Bearer '' @ apiKey), (''Content-Type'', ''application/json'')]
        @ (case organizationId of
             Some org \<Rightarrow> if org \<noteq> [] then [(''OpenAI-Organization'', org)] else []
           | None \<Rightarrow> []),
      req_mode = ''cors'',
      req_credentials = ''omit''\<rparr>"

text \<open>
  \<^verbatim>\<open>testConnection\<close>; \<open>fetch\<close> is the network: it rejects (\<open>Inl\<close>) or resolves to a response.
\<close>

definition testConnection ::
  "runtime \<Rightarrow> (request \<Rightarrow> thrown + response) \<Rightarrow> string \<Rightarrow> string option \<Rightarrow> testConnectionResult"
where
  "testConnection rt fetch apiKey organizationId =
     (case fetch (buildRequest apiKey organizationId) of
        Inl e \<Rightarrow> connectionFailed e
      | Inr response \<Rightarrow>
          if \<not> resp_ok response then
            (case resp_json response of
               Inl e \<Rightarrow> connectionFailed e
             | Inr errorData \<Rightarrow>
                 (case getProp errorData ''error'' of
                    None \<Rightarrow> connectionFailed (JsError (typeErrorText rt errorData ''error''))
                  | Some err \<Rightarrow>
                      \<lparr>tc_success = False, tc_message = ''Connection failed'',
                       tc_error = Some
                         (if truthy (optChain err ''message'') then optChain err ''message''
                          else Str (''HTTP '' @ showNat (resp_status response) @ '': ''
                                    @ resp_statusText response)),
                       tc_models = None\<rparr>))
          else
            (case resp_json response of
               Inl e \<Rightarrow> connectionFailed e
             | Inr data \<Rightarrow>
                 (case getProp data ''data'' of
                    None \<Rightarrow> connectionFailed (JsError (typeErrorText rt data ''data''))
                  | Some (Arr ms) \<Rightarrow>
                      (case mapIds ms of
                         Inl bad \<Rightarrow> connectionFailed (JsError (typeErrorText rt bad ''id''))
                       | Inr availableModels \<Rightarrow>
                           \<lparr>tc_success = True, tc_message = ''Connection successful'',
                            tc_error = None, tc_models = Some availableModels\<rparr>)
                  | Some other \<Rightarrow> connectionFailed (JsError (typeErrorText rt other ''map'')))))"

subsection \<open>Saving and loading\<close>

text \<open>
  \<^verbatim>\<open>services.api\<close> is optional. Its calls resolve or reject; they are taken not to touch
  the browser's local storage.
\<close>

record apiService =
  api_get :: "string \<Rightarrow> thrown + jsval"
  api_post :: "string \<Rightarrow> settings \<Rightarrow> thrown + jsval"

record services =
  svc_api :: "apiService option"

text \<open>
  \<^verbatim>\<open>localStorage\<close>: the stored items, and when \<^verbatim>\<open>setItem\<close> (quota) or \<^verbatim>\<open>getItem\<close> throws.
\<close>

record localStorage =
  ls_items :: "string \<rightharpoonup> string"
  ls_setItem_throws :: "string \<Rightarrow> string \<Rightarrow> thrown option"
  ls_getItem_throws :: "string \<Rightarrow> thrown option"

definition setItem :: "localStorage \<Rightarrow> string \<Rightarrow> string \<Rightarrow> thrown + localStorage" where
  "setItem ls k v =
     (case ls_setItem_throws ls k v of
        Some e \<Rightarrow> Inl e
      | None \<Rightarrow> Inr (ls\<lparr>ls_items := (ls_items ls)(k \<mapsto> v)\<rparr>))"

definition getItem :: "localStorage \<Rightarrow> string \<Rightarrow> thrown + string option" where
  "getItem ls k = (case ls_getItem_throws ls k of Some e \<Rightarrow> Inl e | None \<Rightarrow> Inr (ls_items ls k))"

definition settingsKey :: string where
  "settingsKey = ''openai_settings_'' @ ''config''"

record saveResult =
  sv_success :: bool
  sv_message :: string

definition saveToLocalStorage :: "runtime \<Rightarrow> localStorage \<Rightarrow> settings \<Rightarrow> thrown + localStorage" where
  "saveToLocalStorage rt ls s = setItem ls settingsKey (JSON_stringify rt s)"

text \<open>\<^verbatim>\<open>saveSettings\<close> returns its result and the local storage it leaves.\<close>

definition saveSettings ::
  "runtime \<Rightarrow> services \<Rightarrow> localStorage \<Rightarrow> settings \<Rightarrow> saveResult \<times> localStorage"
where
  "saveSettings rt svc ls s =
     (let fallback =
        (case saveToLocalStorage rt ls s of
           Inr ls' \<Rightarrow> (\<lparr>sv_success = True, sv_message = ''Settings saved to local storage''\<rparr>, ls')
         | Inl e \<Rightarrow>
             (\<lparr>sv_success = False, sv_message = errorMessage e ''Failed to save settings''\<rparr>, ls))
      in case svc_api svc of
           Some api \<Rightarrow>
             (case api_post api ''/api/settings/openai'' s of
                Inr r \<Rightarrow> (\<lparr>sv_success = True, sv_message = ''Settings saved successfully''\<rparr>, ls)
              | Inl apiError \<Rightarrow> fallback)
         | None \<Rightarrow> fallback)"

definition loadFromLocalStorage :: "runtime \<Rightarrow> localStorage \<Rightarrow> settings option" where
  "loadFromLocalStorage rt ls =
     (case getItem ls settingsKey of
        Inl e \<Rightarrow> None
      | Inr None \<Rightarrow> None
      | Inr (Some stored) \<Rightarrow>
          if stored = [] then None
          else (case JSON_parse rt stored of
                  Inl e \<Rightarrow> None
                | Inr parsed \<Rightarrow> validateSettings parsed))"

text \<open>
  \<^verbatim>\<open>loadSettings\<close>. Inside \<^verbatim>\<open>if (response && response.data)\<close> the function returns what
  \<^verbatim>\<open>validateSettings\<close> returns. Neither helper throws, so the outer \<^verbatim>\<open>catch\<close> is not reached.
\<close>

definition loadSettings :: "runtime \<Rightarrow> services \<Rightarrow> localStorage \<Rightarrow> settings option" where
  "loadSettings rt svc ls =
     (case svc_api svc of
        Some api \<Rightarrow>
          (case api_get api ''/api/settings/openai'' of
             Inr response \<Rightarrow>
               if truthy response \<and> truthy (optChain response ''data'')
               then validateSettings (optChain response ''data'')
               else loadFromLocalStorage rt ls
           | Inl apiError \<Rightarrow> loadFromLocalStorage rt ls)
      | None \<Rightarrow> loadFromLocalStorage rt ls)"

subsection \<open>Predicates used to state the properties\<close>

text \<open>A value that is neither \<^verbatim>\<open>undefined\<close> nor \<^verbatim>\<open>null\<close>: a record of the model list is one.\<close>

definition notNullish :: "jsval \<Rightarrow> bool" where
  "notNullish v = (v \<noteq> Undefined \<and> v \<noteq> Null)"

text \<open>
  A raw record whose \<open>apiKey\<close> and \<open>model\<close> pass the re-validation: \<open>apiKey\<close> is a string
  that is not empty, \<open>model\<close> is one of the five allowed strings.
\<close>

definition passesRevalidation :: "jsval \<Rightarrow> bool" where
  "passesRevalidation d =
     ((case optChain d ''apiKey'' of Str k \<Rightarrow> k \<noteq> [] | _ \<Rightarrow> False)
      \<and> (case optChain d ''model'' of Str m \<Rightarrow> m \<in> set allowedModels | _ \<Rightarrow> False))"

text \<open>The remote write succeeds: the API service is present and its \<^verbatim>\<open>post\<close> resolves.\<close>

definition remoteWriteSucceeds :: "services \<Rightarrow> settings \<Rightarrow> bool" where
  "remoteWriteSucceeds svc s =
     (case svc_api svc of
        Some api \<Rightarrow> (case api_post api ''/api/settings/openai'' s of Inr r \<Rightarrow> True | Inl e \<Rightarrow> False)
      | None \<Rightarrow> False)"

section \<open>Fixtures for concrete evaluation\<close>

text \<open>
  Where a theorem below is evaluated at a concrete input, the engine's functions are given
  as follows. The rounding keeps the value: the literals evaluated below (such as
  \<^verbatim>\<open>0.5\<close> and \<^verbatim>\<open>1.5\<close>) denote doubles, which the engine's rounding keeps too. The other
  functions are finite tables: a number and its string, a settings object and its JSON text,
  a JSON text and the value it parses to.
\<close>

definition exactRounding :: "real \<Rightarrow> jsnum" where
  "exactRounding v = Fin v"

definition fracToStringOn :: "(real \<times> string) list \<Rightarrow> real \<Rightarrow> string" where
  "fracToStringOn table r = (case map_of table r of Some t \<Rightarrow> t | None \<Rightarrow> ''?'')"

definition runtimeOn :: "(settings \<times> string) list \<Rightarrow> (string \<times> jsval) list \<Rightarrow> runtime" where
  "runtimeOn texts docs =
     \<lparr>JSON_stringify = (\<lambda>s. case map_of texts s of Some t \<Rightarrow> t | None \<Rightarrow> ''?''),
      JSON_parse = (\<lambda>t. case map_of docs t of
                          Some v \<Rightarrow> Inr v
                        | None \<Rightarrow> Inl (JsError ''Unexpected token'')),
      typeErrorText = (\<lambda>v name.
        if v = Null then ''Cannot read properties of null (reading '' @ name @ '')''
        else if v = Undefined then ''Cannot read properties of undefined (reading '' @ name @ '')''
        else name @ '' is not a function'')\<rparr>"

text \<open>
  Mocks, as the test suite has them: a \<^verbatim>\<open>fetch\<close> with one outcome, an API service whose
  \<^verbatim>\<open>get\<close> and \<^verbatim>\<open>post\<close> have one outcome each, a local storage holding given items whose
  \<^verbatim>\<open>setItem\<close> throws or not, and one settings object with its JSON text.
\<close>

definition fetchReturning :: "thrown + response \<Rightarrow> request \<Rightarrow> thrown + response" where
  "fetchReturning outcome req = outcome"

definition apiReturning :: "thrown + jsval \<Rightarrow> thrown + jsval \<Rightarrow> apiService" where
  "apiReturning got posted = \<lparr>api_get = (\<lambda>url. got), api_post = (\<lambda>url body. posted)\<rparr>"

definition storageHolding :: "(string \<times> string) list \<Rightarrow> thrown option \<Rightarrow> localStorage" where
  "storageHolding kvs setItemError =
     \<lparr>ls_items = map_of kvs, ls_setItem_throws = (\<lambda>k v. setItemError),
      ls_getItem_throws = (\<lambda>k. None)\<rparr>"

definition sampleSettings :: settings where
  "sampleSettings = \<lparr>set_apiKey = ''sk-valid-key'', set_organizationId = None,
     set_model = ''gpt-4o'', set_maxTokens = None, set_temperature = None\<rparr>"

definition sampleJson :: string where
  \<open>sampleJson = ''{"apiKey":"sk-valid-key","model":"gpt-4o"}''\<close>

definition sampleRuntime :: runtime where
  "sampleRuntime = runtimeOn [(sampleSettings, sampleJson)]
     [(sampleJson, Obj [(''apiKey'', Str ''sk-valid-key''), (''model'', Str ''gpt-4o'')])]"

section \<open>Properties of the form utilities\<close>

declare showNat.simps [simp del]

subsection \<open>Trimming\<close>

lemma dropWhile_hd_id: "s \<noteq> [] \<Longrightarrow> \<not> P (hd s) \<Longrightarrow> dropWhile P s = s"
  by (cases s) simp_all

lemma trim_id:
  "s \<noteq> [] \<Longrightarrow> \<not> isWhiteSpace (hd s) \<Longrightarrow> \<not> isWhiteSpace (last s) \<Longrightarrow> trim s = s"
  by (simp add: trim_def dropWhile_hd_id hd_rev)

lemma trim_Nil_iff: "trim s = [] \<longleftrightarrow> dropWhile isWhiteSpace s = []"
proof (cases "dropWhile isWhiteSpace s = []")
  case True
  have "trim s = []" unfolding trim_def True by simp
  with True show ?thesis by simp
next
  case False
  then have "\<not> isWhiteSpace (hd (dropWhile isWhiteSpace s))" by (rule hd_dropWhile)
  moreover have "hd (dropWhile isWhiteSpace s) \<in> set (rev (dropWhile isWhiteSpace s))"
    using False by simp
  ultimately have "dropWhile isWhiteSpace (rev (dropWhile isWhiteSpace s)) \<noteq> []"
    by (auto simp only: dropWhile_eq_Nil_conv)
  then have "trim s \<noteq> []" unfolding trim_def by (simp only: rev_is_Nil_conv not_False_eq_True)
  with False show ?thesis by blast
qed

lemma last_dropWhile: "dropWhile P xs \<noteq> [] \<Longrightarrow> last (dropWhile P xs) = last xs"
  by (induction xs) (auto split: if_splits)

lemma trim_ends:
  assumes "trim s \<noteq> []"
  shows "\<not> isWhiteSpace (hd (trim s))" and "\<not> isWhiteSpace (last (trim s))"
proof -
  let ?u = "dropWhile isWhiteSpace s"
  let ?d = "dropWhile isWhiteSpace (rev ?u)"
  from assms have d: "?d \<noteq> []" by (simp add: trim_def)
  from assms have u: "?u \<noteq> []" by (simp add: trim_Nil_iff)
  have "hd (trim s) = last ?d" using d by (simp add: trim_def hd_rev)
  also have "\<dots> = last (rev ?u)" using d by (rule last_dropWhile)
  also have "\<dots> = hd ?u" using u by (simp add: last_rev)
  finally have "hd (trim s) = hd ?u" .
  moreover have "\<not> isWhiteSpace (hd ?u)" using u by (rule hd_dropWhile)
  ultimately show "\<not> isWhiteSpace (hd (trim s))" by simp
  have "last (trim s) = hd ?d" using d by (simp add: trim_def last_rev)
  moreover have "\<not> isWhiteSpace (hd ?d)" using d by (rule hd_dropWhile)
  ultimately show "\<not> isWhiteSpace (last (trim s))" by simp
qed

lemma trim_Nil [simp]: "trim [] = []"
  by (simp add: trim_def)

lemma trim_idem: "trim (trim s) = trim s"
proof (cases "trim s = []")
  case True
  then show ?thesis by simp
next
  case False
  then show ?thesis using trim_ends [OF False] by (simp add: trim_id)
qed

text \<open>After the leading white space comes the trimmed string, then white space only.\<close>

lemma dropWhile_trim:
  "\<exists>w. dropWhile isWhiteSpace s = trim s @ w \<and> list_all isWhiteSpace w"
proof -
  let ?u = "dropWhile isWhiteSpace s"
  have "rev ?u = takeWhile isWhiteSpace (rev ?u) @ dropWhile isWhiteSpace (rev ?u)" by simp
  then have "rev (rev ?u) = rev (takeWhile isWhiteSpace (rev ?u) @ dropWhile isWhiteSpace (rev ?u))"
    by (rule arg_cong)
  then have "?u = trim s @ rev (takeWhile isWhiteSpace (rev ?u))"
    by (simp only: rev_rev_ident rev_append trim_def)
  moreover have "list_all isWhiteSpace (rev (takeWhile isWhiteSpace (rev ?u)))"
    by (simp add: list_all_iff) (meson set_takeWhileD)
  ultimately show ?thesis by blast
qed

lemma alnum_not_space: "isAlnum c \<Longrightarrow> \<not> isWhiteSpace c"
  by (auto simp: isAlnum_def isWhiteSpace_def Let_def)

text \<open>A string of the API key format has no white space at either end.\<close>

lemma apiKeyPattern_trim:
  assumes "apiKeyPattern s"
  shows "trim s = s"
proof -
  from assms have t: "take 3 s = ''sk-''" and l: "length (drop 3 s) = 48"
    and a: "list_all isAlnum (drop 3 s)"
    by (simp_all add: apiKeyPattern_def)
  from t have ne: "s \<noteq> []" by auto
  from t ne have h: "hd s = CHR ''s''" by (cases s) auto
  from l have dne: "drop 3 s \<noteq> []" by auto
  then have "last s = last (drop 3 s)" by simp
  moreover have "last (drop 3 s) \<in> set (drop 3 s)" using dne by (rule last_in_set)
  ultimately have "isAlnum (last s)" using a by (simp add: list_all_iff)
  then have "\<not> isWhiteSpace (last s)" by (rule alnum_not_space)
  moreover have "\<not> isWhiteSpace (hd s)" by (simp add: h isWhiteSpace_def)
  ultimately show ?thesis using ne by (simp add: trim_id)
qed

subsection \<open>sanitizeApiKey\<close>

text \<open>
  Claim C9. For every string of length at least 10, \<open>sanitizeApiKey\<close> returns the first 7
  characters, then \<^verbatim>\<open>...\<close>, then the last 4 characters; every string shorter than 10
  characters, the empty string included, is returned unchanged.
\<close>

theorem sanitizeApiKey_spec:
  "(10 \<le> length s \<longrightarrow>
      sanitizeApiKey s = take 7 s @ ''...'' @ drop (length s - 4) s
      \<and> length (take 7 s) = 7 \<and> length (drop (length s - 4) s) = 4)
   \<and> (length s < 10 \<longrightarrow> sanitizeApiKey s = s)"
  by (auto simp: sanitizeApiKey_def)

theorem sanitizeApiKey_spec_witness:
  "sanitizeApiKey ''sk-123456789012345678901234567890123456789012345678901234567890''
     = ''sk-1234...7890''
   \<and> sanitizeApiKey ''sk-123'' = ''sk-123'' \<and> sanitizeApiKey [] = []"
  using
    sanitizeApiKey_spec [of "''sk-123456789012345678901234567890123456789012345678901234567890''"]
    sanitizeApiKey_spec [of "''sk-123''"] sanitizeApiKey_spec [of "[]"]
  by simp

subsection \<open>validateForm: the API key\<close>

text \<open>
  Claim C4, as the code has it. \<open>validateForm\<close> tests the key after trimming white space
  from both ends. A key that is \<^verbatim>\<open>sk-\<close> and exactly 48 alphanumerics yields no error. For any
  key, there is no error exactly when the trimmed key has that format, the error
  "API Key is required" exactly when the trimmed key is empty, and the error
  "Invalid API Key format ..." in every other case.
\<close>

theorem validateForm_apiKey:
  "(apiKeyPattern (form_apiKey f) \<longrightarrow> err_apiKey (validateForm td f) = None)
   \<and> (err_apiKey (validateForm td f) = None \<longleftrightarrow> apiKeyPattern (trim (form_apiKey f)))
   \<and> (err_apiKey (validateForm td f) = Some msgApiKeyRequired \<longleftrightarrow> trim (form_apiKey f) = [])
   \<and> (err_apiKey (validateForm td f) = Some msgApiKeyFormat \<longleftrightarrow>
        trim (form_apiKey f) \<noteq> [] \<and> \<not> apiKeyPattern (trim (form_apiKey f)))"
proof -
  have ne: "msgApiKeyRequired \<noteq> msgApiKeyFormat"
    by (simp add: msgApiKeyRequired_def msgApiKeyFormat_def)
  have e: "\<not> apiKeyPattern []" by (simp add: apiKeyPattern_def)
  show ?thesis using ne e
    by (auto simp: validateForm_def apiKeyPattern_trim)
qed

theorem validateForm_apiKey_witness:
  "apiKeyPattern ''sk-abcdefghijklmnopqrstuvwxyzABCDEFGHIJ0123456789KL''
   \<and> err_apiKey (validateForm (exactRounding)
        \<lparr>form_apiKey = ''sk-abcdefghijklmnopqrstuvwxyzABCDEFGHIJ0123456789KL'',
         form_organizationId = [], form_model = ''gpt-4o'',
         form_maxTokens = [], form_temperature = []\<rparr>) = None"
proof -
  have p: "apiKeyPattern ''sk-abcdefghijklmnopqrstuvwxyzABCDEFGHIJ0123456789KL''"
    by (simp add: apiKeyPattern_def isAlnum_def)
  show ?thesis
    using p validateForm_apiKey [of
        "\<lparr>form_apiKey = ''sk-abcdefghijklmnopqrstuvwxyzABCDEFGHIJ0123456789KL'',
          form_organizationId = [], form_model = ''gpt-4o'',
          form_maxTokens = [], form_temperature = []\<rparr>"
        exactRounding]
    by simp
qed

text \<open>
  The claim as stated fails: a key with a leading space is not \<^verbatim>\<open>sk-\<close> and 48 alphanumerics,
  and \<open>validateForm\<close> reports no error for it.
\<close>

theorem validateForm_apiKey_counterexample:
  "\<not> apiKeyPattern '' sk-abcdefghijklmnopqrstuvwxyzABCDEFGHIJ0123456789KL''
   \<and> err_apiKey (validateForm (exactRounding)
        \<lparr>form_apiKey = '' sk-abcdefghijklmnopqrstuvwxyzABCDEFGHIJ0123456789KL'',
         form_organizationId = [], form_model = ''gpt-4o'',
         form_maxTokens = [], form_temperature = []\<rparr>) = None"
  by (simp add: validateForm_def apiKeyPattern_def isAlnum_def trim_def isWhiteSpace_def)

subsection \<open>Numerals and what the parsers read\<close>

lemma decDigit_plain:
  "isDecDigit c \<Longrightarrow> \<not> isWhiteSpace c \<and> c \<noteq> CHR ''+'' \<and> c \<noteq> CHR ''-'' \<and> c \<noteq> CHR ''x'' \<and> c \<noteq> CHR ''X''"
  by (auto simp: isDecDigit_def isWhiteSpace_def)

lemma space_plain:
  "isWhiteSpace c \<Longrightarrow> \<not> isDecDigit c \<and> c \<noteq> CHR ''x'' \<and> c \<noteq> CHR ''X'' \<and> c \<noteq> CHR ''.''
     \<and> c \<noteq> CHR ''e'' \<and> c \<noteq> CHR ''E''"
  by (auto simp: isDecDigit_def isWhiteSpace_def)

lemma takeWhile_digits_space:
  assumes d: "list_all isDecDigit ds" and w: "list_all isWhiteSpace w"
  shows "takeWhile isDecDigit (ds @ w) = ds" and "dropWhile isDecDigit (ds @ w) = w"
proof -
  have tw: "takeWhile isDecDigit w = []" and dw: "dropWhile isDecDigit w = w"
    using w space_plain by (cases w; simp)+
  from d have a: "\<forall>x\<in>set ds. isDecDigit x" by (simp add: list_all_iff)
  show "takeWhile isDecDigit (ds @ w) = ds" using a tw by (simp add: takeWhile_append2)
  show "dropWhile isDecDigit (ds @ w) = w" using a dw by (simp add: dropWhile_append2)
qed

text \<open>Digits with white space after them: \<^verbatim>\<open>parseInt\<close> reads the digits, in radix 10.\<close>

lemma parseIntMV_numeral:
  assumes S: "dropWhile isWhiteSpace s = sg @ ds @ w"
    and sg: "sg = [] \<or> sg = ''+'' \<or> sg = ''-''"
    and d: "list_all isDecDigit ds" and ne: "ds \<noteq> []"
    and w: "list_all isWhiteSpace w"
  shows "parseIntMV s = Some (if sg = ''-'' then - int (digitsValue ds) else int (digitsValue ds))"
proof -
  from ne obtain c cs where ds: "ds = c # cs" by (cases ds) auto
  with d have c: "isDecDigit c" and cs: "list_all isDecDigit cs" by simp_all
  from c have p: "c \<noteq> CHR ''+''" "c \<noteq> CHR ''-''" using decDigit_plain by blast+
  have nohex: "take 2 (ds @ w) \<noteq> ''0x'' \<and> take 2 (ds @ w) \<noteq> ''0X''"
  proof (cases cs)
    case Nil
    show ?thesis
    proof (cases w)
      case Nil
      then show ?thesis by (simp add: ds \<open>cs = []\<close>)
    next
      case (Cons b bs)
      with w have "isWhiteSpace b" by simp
      then have "b \<noteq> CHR ''x''" "b \<noteq> CHR ''X''" using space_plain by blast+
      then show ?thesis by (simp add: ds \<open>cs = []\<close> Cons)
    qed
  next
    case (Cons b bs)
    with cs have "isDecDigit b" by simp
    then have "b \<noteq> CHR ''x''" "b \<noteq> CHR ''X''" using decDigit_plain by blast+
    then show ?thesis by (simp add: ds Cons)
  qed
  have tw: "takeWhile isDecDigit (ds @ w) = ds" using d w by (rule takeWhile_digits_space)
  have hdS: "hd (ds @ w) = c" by (simp add: ds)
  from sg show ?thesis
  proof (elim disjE)
    assume "sg = []"
    then show ?thesis
      unfolding parseIntMV_def S Let_def
      using nohex ne p by (simp add: hdS tw digitsValue_def)
  next
    assume "sg = ''+''"
    then show ?thesis
      unfolding parseIntMV_def S Let_def
      using nohex ne by (simp add: tw digitsValue_def)
  next
    assume "sg = ''-''"
    then show ?thesis
      unfolding parseIntMV_def S Let_def
      using nohex ne by (simp add: tw digitsValue_def)
  qed
qed

lemma wholeInteger_parts:
  assumes "wholeInteger s = Some n"
  shows "\<exists>sg ds. trim s = sg @ ds \<and> (sg = [] \<or> sg = ''+'' \<or> sg = ''-'') \<and> ds \<noteq> []
     \<and> list_all isDecDigit ds
     \<and> n = (if sg = ''-'' then - int (digitsValue ds) else int (digitsValue ds))"
proof (cases "trim s")
  case Nil
  with assms show ?thesis by (simp add: wholeInteger_def)
next
  case (Cons c cs)
  show ?thesis
  proof (cases "c = CHR ''+'' \<or> c = CHR ''-''")
    case True
    with assms Cons have "cs \<noteq> []" "list_all isDecDigit cs"
      and "n = (if c = CHR ''-'' then - int (digitsValue cs) else int (digitsValue cs))"
      by (auto simp: wholeInteger_def Let_def split: if_splits)
    with True Cons show ?thesis
      by (intro exI [of _ "[c]"] exI [of _ cs]) auto
  next
    case False
    with assms Cons have "list_all isDecDigit (c # cs)" and "n = int (digitsValue (c # cs))"
      by (auto simp: wholeInteger_def Let_def split: if_splits)
    with Cons show ?thesis
      by (intro exI [of _ "[]"] exI [of _ "c # cs"]) auto
  qed
qed

lemma wholeInteger_parseIntMV:
  assumes "wholeInteger s = Some n"
  shows "parseIntMV s = Some n"
proof -
  from wholeInteger_parts [OF assms] obtain sg ds where
    t: "trim s = sg @ ds" and sg: "sg = [] \<or> sg = ''+'' \<or> sg = ''-''" and ne: "ds \<noteq> []"
    and d: "list_all isDecDigit ds"
    and n: "n = (if sg = ''-'' then - int (digitsValue ds) else int (digitsValue ds))"
    by blast
  from dropWhile_trim [of s] obtain w where
    u: "dropWhile isWhiteSpace s = trim s @ w" and w: "list_all isWhiteSpace w" by blast
  from u t have S: "dropWhile isWhiteSpace s = sg @ ds @ w" by simp
  from parseIntMV_numeral [OF S sg d ne w] n show ?thesis by simp
qed

lemma wholeInteger_nonblank: "wholeInteger s = Some n \<Longrightarrow> trim s \<noteq> []"
  using wholeInteger_parts by fastforce

lemma orElse_Nil [simp]: "orElse a [] = a"
  by (simp add: orElse_def)

lemma parseInt_NaN: "isNaN (parseInt s) \<longleftrightarrow> parseIntMV s = None"
  by (simp add: parseInt_def isNaN_def split: option.splits)

lemma parseInt_lt: "parseIntMV s = Some n \<Longrightarrow> num_lt (parseInt s) (Fin (of_int k)) \<longleftrightarrow> n < k"
  by (simp add: parseInt_def)

lemma parseInt_gt: "parseIntMV s = Some n \<Longrightarrow> num_lt (Fin (of_int k)) (parseInt s) \<longleftrightarrow> k < n"
  by (simp add: parseInt_def)

lemma maxTokens_check:
  "(isNaN (parseInt s) \<or> num_lt (parseInt s) (Fin 1) \<or> num_lt (Fin 8192) (parseInt s))
   \<longleftrightarrow> (case parseIntMV s of None \<Rightarrow> True | Some n \<Rightarrow> n < 1 \<or> 8192 < n)"
proof (cases "parseIntMV s")
  case None
  then show ?thesis by (simp add: parseInt_NaN)
next
  case (Some n)
  then show ?thesis
    using parseInt_lt [OF Some, of 1] parseInt_gt [OF Some, of 8192]
    by (simp add: parseInt_NaN)
qed

lemma temperature_check:
  "(isNaN x \<or> num_lt x (Fin 0) \<or> num_lt (Fin 2) x)
   \<longleftrightarrow> (case x of Fin r \<Rightarrow> r < 0 \<or> 2 < r | _ \<Rightarrow> True)"
  by (cases x) (simp_all add: isNaN_def)

lemma scanFloat_blank: "trim s = [] \<Longrightarrow> scanFloat s = None"
  by (simp add: trim_Nil_iff scanFloat_def scanUnsigned_def del: dropWhile_eq_Nil_conv)

lemma parseFloat_blank: "trim s = [] \<Longrightarrow> parseFloat td s = NaN"
  by (simp add: parseFloat_def scanFloat_blank)

lemma wholeDecimal_nonblank: "wholeDecimal s \<Longrightarrow> trim s \<noteq> []"
  using scanFloat_blank [of s] by (auto simp: wholeDecimal_def)

lemma err_maxTokens_cases:
  "err_maxTokens (validateForm td f) =
     (if trim (form_maxTokens f) \<noteq> []
         \<and> (case parseIntMV (form_maxTokens f) of None \<Rightarrow> True | Some n \<Rightarrow> n < 1 \<or> 8192 < n)
      then Some msgMaxTokens else None)"
  using maxTokens_check [of "form_maxTokens f"] by (simp add: validateForm_def Let_def)

lemma err_temperature_cases:
  "err_temperature (validateForm td f) =
     (if trim (form_temperature f) \<noteq> []
         \<and> (case parseFloat td (form_temperature f) of Fin r \<Rightarrow> r < 0 \<or> 2 < r | _ \<Rightarrow> True)
      then Some msgTemperature else None)"
  using temperature_check [of "parseFloat td (form_temperature f)"]
  by (simp add: validateForm_def Let_def)

lemma half_not_int: "(1 / 2 :: real) \<notin> \<int>"
proof
  assume "(1 / 2 :: real) \<in> \<int>"
  then obtain n :: int where "(1 / 2 :: real) = of_int n" by (auto elim: Ints_cases)
  then have "(1 :: real) = of_int (2 * n)" by simp
  then have "(1 :: int) = 2 * n" by (simp only: of_int_eq_1_iff)
  then show False by presburger
qed

lemma three_halves_not_int: "(3 / 2 :: real) \<notin> \<int>"
proof
  assume "(3 / 2 :: real) \<in> \<int>"
  then obtain n :: int where "(3 / 2 :: real) = of_int n" by (auto elim: Ints_cases)
  then have "(3 :: real) = of_int (2 * n)" by simp
  then have "(3 :: int) = 2 * n" by (metis of_int_eq_iff of_int_numeral)
  then show False by presburger
qed

lemmas scan_defs = parseFloat_def scanFloat_def scanUnsigned_def scanExponent_def digitsValue_def
  pow10_def roundNumber_def isWhiteSpace_def isDecDigit_def digitVal_def Let_def

subsection \<open>validateForm: the numeric ranges\<close>

text \<open>
  Claim C7, as the code has it. \<open>validateForm\<close> checks a numeric field only when it is not
  blank, that is, not empty after trimming white space: a blank field yields no error. For
  a \<open>maxTokens\<close> that is a decimal integer throughout, the error
  "Max tokens must be between 1 and 8192" is reported exactly when the integer lies
  outside 1..8192 (so \<^verbatim>\<open>10000\<close> yields the error), and a \<open>maxTokens\<close> that is not blank and
  starts with no number yields the error. For a \<open>temperature\<close> that is a decimal literal
  throughout, "Temperature must be between 0 and 2" is reported exactly when its float
  value lies outside the interval from 0 to 2, and a \<open>temperature\<close> that is not blank and
  starts with no number yields the error. A string that starts with a number and goes on
  with other characters is outside this statement.
\<close>

theorem validateForm_ranges:
  "(trim (form_maxTokens f) = [] \<longrightarrow> err_maxTokens (validateForm td f) = None)
   \<and> (\<forall>n. wholeInteger (form_maxTokens f) = Some n \<longrightarrow>
         (err_maxTokens (validateForm td f) = Some msgMaxTokens \<longleftrightarrow> n < 1 \<or> 8192 < n)
         \<and> (err_maxTokens (validateForm td f) = None \<longleftrightarrow> 1 \<le> n \<and> n \<le> 8192))
   \<and> (trim (form_maxTokens f) \<noteq> [] \<and> parseIntMV (form_maxTokens f) = None \<longrightarrow>
         err_maxTokens (validateForm td f) = Some msgMaxTokens)
   \<and> (trim (form_temperature f) = [] \<longrightarrow> err_temperature (validateForm td f) = None)
   \<and> (wholeDecimal (form_temperature f) \<longrightarrow>
         (err_temperature (validateForm td f) = Some msgTemperature \<longleftrightarrow>
            (case parseFloat td (form_temperature f) of Fin r \<Rightarrow> r < 0 \<or> 2 < r | _ \<Rightarrow> True))
         \<and> (err_temperature (validateForm td f) = None \<longleftrightarrow>
            (case parseFloat td (form_temperature f) of Fin r \<Rightarrow> 0 \<le> r \<and> r \<le> 2 | _ \<Rightarrow> False)))
   \<and> (trim (form_temperature f) \<noteq> [] \<and> scanFloat (form_temperature f) = None \<longrightarrow>
         err_temperature (validateForm td f) = Some msgTemperature)"
proof (intro conjI allI impI)
  show "err_maxTokens (validateForm td f) = None" if "trim (form_maxTokens f) = []"
    using that by (simp add: err_maxTokens_cases)
  show "err_temperature (validateForm td f) = None" if "trim (form_temperature f) = []"
    using that by (simp add: err_temperature_cases)
  show "err_maxTokens (validateForm td f) = Some msgMaxTokens"
    if "trim (form_maxTokens f) \<noteq> [] \<and> parseIntMV (form_maxTokens f) = None"
    using that by (simp add: err_maxTokens_cases)
  show "err_temperature (validateForm td f) = Some msgTemperature"
    if "trim (form_temperature f) \<noteq> [] \<and> scanFloat (form_temperature f) = None"
    using that by (simp add: err_temperature_cases parseFloat_def)
next
  fix n assume w: "wholeInteger (form_maxTokens f) = Some n"
  note p = wholeInteger_parseIntMV [OF w] and b = wholeInteger_nonblank [OF w]
  show "err_maxTokens (validateForm td f) = Some msgMaxTokens \<longleftrightarrow> n < 1 \<or> 8192 < n"
    using p b by (simp add: err_maxTokens_cases)
  show "err_maxTokens (validateForm td f) = None \<longleftrightarrow> 1 \<le> n \<and> n \<le> 8192"
    using p b by (auto simp: err_maxTokens_cases)
next
  assume w: "wholeDecimal (form_temperature f)"
  note b = wholeDecimal_nonblank [OF w]
  show "err_temperature (validateForm td f) = Some msgTemperature \<longleftrightarrow>
      (case parseFloat td (form_temperature f) of Fin r \<Rightarrow> r < 0 \<or> 2 < r | _ \<Rightarrow> True)"
    using b by (simp add: err_temperature_cases)
  show "err_temperature (validateForm td f) = None \<longleftrightarrow>
      (case parseFloat td (form_temperature f) of Fin r \<Rightarrow> 0 \<le> r \<and> r \<le> 2 | _ \<Rightarrow> False)"
    using b by (auto simp: err_temperature_cases split: jsnum.splits)
qed

theorem validateForm_ranges_witness:
  "wholeInteger ''10000'' = Some 10000
   \<and> wholeDecimal ''3.0''
   \<and> validateForm exactRounding
      \<lparr>form_apiKey = ''sk-abcdefghijklmnopqrstuvwxyzABCDEFGHIJ0123456789KL'', form_organizationId = [], form_model = ''gpt-4o'',
       form_maxTokens = ''10000'', form_temperature = ''3.0''\<rparr>
     = noErrors\<lparr>err_maxTokens := Some msgMaxTokens, err_temperature := Some msgTemperature\<rparr>
   \<and> wholeInteger ''4096'' = Some 4096
   \<and> wholeDecimal ''1.5''
   \<and> validateForm exactRounding
      \<lparr>form_apiKey = ''sk-abcdefghijklmnopqrstuvwxyzABCDEFGHIJ0123456789KL'', form_organizationId = [], form_model = ''gpt-4o'',
       form_maxTokens = ''4096'', form_temperature = ''1.5''\<rparr>
     = noErrors
   \<and> parseIntMV ''many'' = None
   \<and> scanFloat ''warm'' = None
   \<and> validateForm exactRounding
      \<lparr>form_apiKey = ''sk-abcdefghijklmnopqrstuvwxyzABCDEFGHIJ0123456789KL'', form_organizationId = [], form_model = ''gpt-4o'',
       form_maxTokens = ''many'', form_temperature = ''warm''\<rparr>
     = noErrors\<lparr>err_maxTokens := Some msgMaxTokens, err_temperature := Some msgTemperature\<rparr>
   \<and> validateForm exactRounding
      \<lparr>form_apiKey = ''sk-abcdefghijklmnopqrstuvwxyzABCDEFGHIJ0123456789KL'', form_organizationId = [], form_model = ''gpt-4o'',
       form_maxTokens = [], form_temperature = []\<rparr>
     = noErrors"
proof -
  let ?k = "''sk-abcdefghijklmnopqrstuvwxyzABCDEFGHIJ0123456789KL''"
  let ?f1 = "\<lparr>form_apiKey = ?k, form_organizationId = [], form_model = ''gpt-4o'',
       form_maxTokens = ''10000'', form_temperature = ''3.0''\<rparr>"
  let ?f2 = "\<lparr>form_apiKey = ?k, form_organizationId = [], form_model = ''gpt-4o'',
       form_maxTokens = ''4096'', form_temperature = ''1.5''\<rparr>"
  let ?f3 = "\<lparr>form_apiKey = ?k, form_organizationId = [], form_model = ''gpt-4o'',
       form_maxTokens = ''many'', form_temperature = ''warm''\<rparr>"
  let ?f4 = "\<lparr>form_apiKey = ?k, form_organizationId = [], form_model = ''gpt-4o'',
       form_maxTokens = [], form_temperature = []\<rparr>"
  note h = three_halves_not_int
  have k: "trim ?k = ?k" "apiKeyPattern ?k"
    by (simp_all add: trim_def isWhiteSpace_def apiKeyPattern_def isAlnum_def)
  have rest: "\<And>mt t. err_apiKey (validateForm exactRounding
        \<lparr>form_apiKey = ?k, form_organizationId = [], form_model = ''gpt-4o'',
         form_maxTokens = mt, form_temperature = t\<rparr>) = None
      \<and> err_organizationId (validateForm exactRounding
        \<lparr>form_apiKey = ?k, form_organizationId = [], form_model = ''gpt-4o'',
         form_maxTokens = mt, form_temperature = t\<rparr>) = None
      \<and> err_model (validateForm exactRounding
        \<lparr>form_apiKey = ?k, form_organizationId = [], form_model = ''gpt-4o'',
         form_maxTokens = mt, form_temperature = t\<rparr>) = None"
    by (simp add: validateForm_def k)
  have w1: "wholeInteger ''10000'' = Some 10000" "wholeInteger ''4096'' = Some 4096"
    by (simp_all add: wholeInteger_def trim_def scan_defs)
  have d1: "wholeDecimal ''3.0''" "wholeDecimal ''1.5''"
    by (simp_all add: wholeDecimal_def scan_defs)
  have x: "parseFloat exactRounding ''3.0'' = Fin 3" "parseFloat exactRounding ''1.5'' = Fin (3 / 2)"
    by (simp_all add: scan_defs h exactRounding_def)
  have n: "parseIntMV ''many'' = None" "scanFloat ''warm'' = None"
    by (simp_all add: parseIntMV_def scan_defs)
  have b: "trim ''many'' \<noteq> []" "trim ''warm'' \<noteq> []" "trim [] = []"
    by (simp_all add: trim_def isWhiteSpace_def)
  have r1: "validateForm exactRounding ?f1
      = noErrors\<lparr>err_maxTokens := Some msgMaxTokens, err_temperature := Some msgTemperature\<rparr>"
    using validateForm_ranges [of ?f1 exactRounding] rest [of "''10000''" "''3.0''"] w1 d1 x
    by (cases "validateForm exactRounding ?f1") (simp add: noErrors_def)
  have r2: "validateForm exactRounding ?f2 = noErrors"
    using validateForm_ranges [of ?f2 exactRounding] rest [of "''4096''" "''1.5''"] w1 d1 x
    by (cases "validateForm exactRounding ?f2") (simp add: noErrors_def)
  have r3: "validateForm exactRounding ?f3
      = noErrors\<lparr>err_maxTokens := Some msgMaxTokens, err_temperature := Some msgTemperature\<rparr>"
    using validateForm_ranges [of ?f3 exactRounding] rest [of "''many''" "''warm''"] n b
    by (cases "validateForm exactRounding ?f3") (simp add: noErrors_def)
  have r4: "validateForm exactRounding ?f4 = noErrors"
    using validateForm_ranges [of ?f4 exactRounding] rest [of "[]" "[]"] b
    by (cases "validateForm exactRounding ?f4") (simp add: noErrors_def)
  from w1 d1 n r1 r2 r3 r4 show ?thesis by (intro conjI)
qed

text \<open>
  The claim as stated fails: a field holding one space is not empty and no number can be
  read from it, and \<open>validateForm\<close> reports no error for it.
\<close>

theorem validateForm_ranges_counterexample:
  "form_maxTokens \<lparr>form_apiKey = [], form_organizationId = [], form_model = ''gpt-4o'',
       form_maxTokens = '' '', form_temperature = '' ''\<rparr> \<noteq> []
   \<and> parseIntMV '' '' = None
   \<and> err_maxTokens (validateForm exactRounding
      \<lparr>form_apiKey = [], form_organizationId = [], form_model = ''gpt-4o'',
       form_maxTokens = '' '', form_temperature = '' ''\<rparr>) = None
   \<and> parseFloat exactRounding '' '' = NaN
   \<and> err_temperature (validateForm exactRounding
      \<lparr>form_apiKey = [], form_organizationId = [], form_model = ''gpt-4o'',
       form_maxTokens = '' '', form_temperature = '' ''\<rparr>) = None"
  by (simp add: validateForm_def trim_def parseIntMV_def scan_defs)

subsection \<open>Decimal digits printed and read back\<close>

lemma digit_cases: "(d::nat) < 10 \<Longrightarrow> d = 0 \<or> d = 1 \<or> d = 2 \<or> d = 3 \<or> d = 4 \<or> d = 5 \<or> d = 6 \<or> d = 7 \<or> d = 8 \<or> d = 9"
  by arith

lemma digit_char: "d < 10 \<Longrightarrow> (of_char (''0123456789'' ! d) :: nat) = 48 + d"
  using digit_cases [of d] by auto

lemma digit_isDec: "d < 10 \<Longrightarrow> isDecDigit (''0123456789'' ! d)"
  by (simp add: isDecDigit_def digit_char)

lemma digit_val: "d < 10 \<Longrightarrow> digitVal (''0123456789'' ! d) = d"
  by (simp add: digitVal_def digit_char Let_def)

lemma showNat_digits: "list_all isDecDigit (showNat n)"
proof (induction n rule: showNat.induct)
  case (1 n)
  show ?case
  proof (cases "n < 10")
    case True
    then show ?thesis by (subst showNat.simps) (simp add: digit_isDec)
  next
    case False
    then show ?thesis using 1 by (subst showNat.simps) (simp add: digit_isDec)
  qed
qed

lemma showNat_nonempty: "showNat n \<noteq> []"
  by (subst showNat.simps) simp

lemma showNat_value: "digitsValue (showNat n) = n"
proof (induction n rule: showNat.induct)
  case (1 n)
  show ?case
  proof (cases "n < 10")
    case True
    then show ?thesis by (subst showNat.simps) (simp add: digitsValue_def digit_val)
  next
    case False
    then show ?thesis using 1
      by (subst showNat.simps) (simp add: digitsValue_def digit_val)
  qed
qed

lemma digits_trim:
  assumes d: "list_all isDecDigit ds" and ne: "ds \<noteq> []"
  shows "trim ds = ds" and "dropWhile isWhiteSpace ds = ds"
    and "hd ds \<noteq> CHR ''+''" and "hd ds \<noteq> CHR ''-''"
proof -
  from ne d have h: "isDecDigit (hd ds)" by (cases ds) simp_all
  from ne d have l: "isDecDigit (last ds)" by (simp add: list_all_iff)
  from h l have "\<not> isWhiteSpace (hd ds)" "\<not> isWhiteSpace (last ds)"
    using decDigit_plain by blast+
  then show "trim ds = ds" and "dropWhile isWhiteSpace ds = ds"
    using ne by (simp_all add: trim_id dropWhile_hd_id)
  from h show "hd ds \<noteq> CHR ''+''" and "hd ds \<noteq> CHR ''-''"
    using decDigit_plain by blast+
qed

lemma wholeInteger_showNat: "wholeInteger (showNat n) = Some (int n)"
  using digits_trim [OF showNat_digits showNat_nonempty, of n]
  by (simp add: wholeInteger_def showNat_digits showNat_nonempty showNat_value)

lemma showInt_nonneg: "0 \<le> n \<Longrightarrow> showInt n = showNat (nat n)"
  by (simp add: showInt_def)

lemma wholeInteger_showInt: "0 \<le> n \<Longrightarrow> wholeInteger (showInt n) = Some n"
  by (simp add: showInt_nonneg wholeInteger_showNat)

lemma parseIntMV_showInt: "0 \<le> n \<Longrightarrow> parseIntMV (showInt n) = Some n"
  by (rule wholeInteger_parseIntMV) (rule wholeInteger_showInt)

lemma numberToString_int:
  assumes a: "\<bar>n\<bar> \<le> 2 ^ 53"
  shows "numberToString ts (Fin (of_int n)) = showInt n"
proof -
  have "real_of_int \<bar>n\<bar> \<le> real_of_int (2 ^ 53)" using a by (simp only: of_int_le_iff)
  then have b: "\<bar>real_of_int n\<bar> \<le> 2 ^ 53" by simp
  have i: "real_of_int n \<in> \<int>" by (rule Ints_of_int)
  have f: "\<lfloor>real_of_int n\<rfloor> = n" by (rule floor_of_int)
  have "numberToString ts (Fin (real_of_int n)) =
      (if real_of_int n \<in> \<int> \<and> \<bar>real_of_int n\<bar> \<le> 2 ^ 53
       then showInt \<lfloor>real_of_int n\<rfloor> else ts (real_of_int n))"
    by (simp only: numberToString_def jsnum.case)
  also have "\<dots> = showInt n" using b i by (simp only: f if_True simp_thms)
  finally show ?thesis .
qed

text \<open>Decimal digits alone: \<^verbatim>\<open>parseFloat\<close> reads them all and gives their value.\<close>

lemma scanFloat_digits:
  assumes d: "list_all isDecDigit ds" and ne: "ds \<noteq> []"
  shows "scanFloat ds = Some (False, LitDecimal (real (digitsValue ds)), [])"
proof -
  from d have a: "\<forall>x\<in>set ds. isDecDigit x" by (simp add: list_all_iff)
  have tw: "takeWhile isDecDigit ds = ds" using a by simp
  have dw: "dropWhile isDecDigit ds = []" using a by simp
  from ne d have h: "isDecDigit (hd ds)" by (cases ds) simp_all
  then have "hd ds \<noteq> CHR ''I''" by (auto simp: isDecDigit_def)
  with ne have inf: "take 8 ds \<noteq> ''Infinity''" by (cases ds) auto
  have u: "scanUnsigned ds = Some (real (digitsValue ds), [])"
    using ne by (simp add: scanUnsigned_def tw dw scanExponent_def pow10_def)
  show ?thesis
    using digits_trim [OF d ne] ne inf
    by (simp add: scanFloat_def u)
qed

lemma parseFloat_showInt:
  assumes "0 \<le> n" and "n \<le> 2 ^ 53"
  shows "parseFloat td (showInt n) = Fin (of_int n)"
proof -
  have s: "scanFloat (showNat (nat n))
      = Some (False, LitDecimal (real (digitsValue (showNat (nat n)))), [])"
    by (rule scanFloat_digits [OF showNat_digits showNat_nonempty])
  have v: "real (digitsValue (showNat (nat n))) = real_of_int n"
    using assms by (simp add: showNat_value)
  have "real_of_int n \<le> real_of_int (2 ^ 53)" using assms by (simp only: of_int_le_iff)
  then have b: "\<bar>real_of_int n\<bar> \<le> 2 ^ 53" using assms by simp
  show ?thesis
    using assms b by (simp add: parseFloat_def showInt_nonneg s v roundNumber_def)
qed

lemma wholeDecimal_showInt: "0 \<le> n \<Longrightarrow> wholeDecimal (showInt n)"
  using scanFloat_digits [OF showNat_digits showNat_nonempty, of "nat n"]
  by (simp add: wholeDecimal_def showInt_nonneg)

subsection \<open>The round trip\<close>

lemma noErrors_iff:
  "e = noErrors \<longleftrightarrow> err_apiKey e = None \<and> err_organizationId e = None \<and> err_model e = None
     \<and> err_maxTokens e = None \<and> err_temperature e = None"
  by (cases e) (auto simp: noErrors_def)

lemma roundTrip_apiKey: "form_apiKey (roundTrip ts td f) = trim (form_apiKey f)"
  by (simp add: roundTrip_def settingsToFormData_def formDataToSettings_def)

lemma roundTrip_organizationId:
  "form_organizationId (roundTrip ts td f) = trim (form_organizationId f)"
  by (simp add: roundTrip_def settingsToFormData_def formDataToSettings_def)

lemma roundTrip_model: "form_model (roundTrip ts td f) = orElse (form_model f) ''gpt-4o''"
  by (simp add: roundTrip_def settingsToFormData_def formDataToSettings_def)

lemma roundTrip_maxTokens:
  "form_maxTokens (roundTrip ts td f) =
     (case parseIntMV (form_maxTokens f) of
        Some n \<Rightarrow> if trim (form_maxTokens f) \<noteq> [] then numberToString ts (Fin (of_int n)) else []
      | None \<Rightarrow> [])"
  by (simp add: roundTrip_def settingsToFormData_def formDataToSettings_def parseInt_def
      isNaN_def split: option.splits)

lemma roundTrip_temperature:
  "form_temperature (roundTrip ts td f) =
     (if trim (form_temperature f) \<noteq> [] \<and> parseFloat td (form_temperature f) \<noteq> NaN
      then numberToString ts (parseFloat td (form_temperature f)) else [])"
  by (simp add: roundTrip_def settingsToFormData_def formDataToSettings_def isNaN_def)

text \<open>What validation leaves of a numeric field: blank, or a number in its range.\<close>

lemma valid_maxTokens:
  assumes "err_maxTokens (validateForm td f) = None" and "trim (form_maxTokens f) \<noteq> []"
  shows "\<exists>n. parseIntMV (form_maxTokens f) = Some n \<and> 1 \<le> n \<and> n \<le> 8192"
  using assms by (auto simp: err_maxTokens_cases split: option.splits if_splits)

lemma valid_temperature:
  assumes "err_temperature (validateForm td f) = None" and "trim (form_temperature f) \<noteq> []"
  shows "\<exists>r. parseFloat td (form_temperature f) = Fin r \<and> 0 \<le> r \<and> r \<le> 2"
  using assms by (auto simp: err_temperature_cases split: jsnum.splits if_splits)

text \<open>An integer from 0 to 2 is printed as its digit and read back.\<close>

lemma readsBack_small_int:
  assumes i: "r \<in> \<int>" and lo: "0 \<le> r" and hi: "r \<le> 2"
  shows "readsBack td ts (Fin r)"
proof -
  from i obtain n :: int where r: "r = of_int n" by (auto elim: Ints_cases)
  with lo hi have n: "0 \<le> n" "n \<le> 2" by simp_all
  then have b: "\<bar>n\<bar> \<le> 2 ^ 53" "n \<le> 2 ^ 53" by simp_all
  show ?thesis
    unfolding readsBack_def r numberToString_int [OF b(1)]
    using n(1) b(2) by (rule parseFloat_showInt)
qed

text \<open>
  Claim C5, as the code has it. Take a form state on which \<open>validateForm\<close> reports no
  error, and an engine that prints the temperature read from it, when that is not an
  integer, so that it reads back as the same number. The round trip gives \<open>apiKey\<close> and
  \<open>organizationId\<close> back trimmed of white space at both ends, and \<open>model\<close> unchanged. A
  blank numeric field comes back empty. A \<open>maxTokens\<close> that is a decimal integer throughout
  comes back as the digits of the same integer. A \<open>temperature\<close> that is a decimal literal
  throughout comes back as the engine's string for its float value, and that string reads
  back as the same float value. The form that comes back passes validation, and a second
  round trip leaves it as it is. A numeric field that starts with a number and goes on with
  other characters is outside the statement about values.
\<close>

theorem roundTrip_valid:
  assumes v: "validateForm td f = noErrors"
    and rb: "\<forall>r. parseFloat td (form_temperature f) = Fin r \<and> r \<notin> \<int> \<longrightarrow> readsBack td ts (Fin r)"
  shows "form_apiKey (roundTrip ts td f) = trim (form_apiKey f)
   \<and> form_organizationId (roundTrip ts td f) = trim (form_organizationId f)
   \<and> form_model (roundTrip ts td f) = form_model f
   \<and> (trim (form_maxTokens f) = [] \<longrightarrow> form_maxTokens (roundTrip ts td f) = [])
   \<and> (\<forall>n. wholeInteger (form_maxTokens f) = Some n \<longrightarrow>
         form_maxTokens (roundTrip ts td f) = showInt n
         \<and> wholeInteger (form_maxTokens (roundTrip ts td f)) = Some n)
   \<and> (trim (form_temperature f) = [] \<longrightarrow> form_temperature (roundTrip ts td f) = [])
   \<and> (wholeDecimal (form_temperature f) \<longrightarrow>
         form_temperature (roundTrip ts td f)
           = numberToString ts (parseFloat td (form_temperature f))
         \<and> parseFloat td (form_temperature (roundTrip ts td f))
           = parseFloat td (form_temperature f))
   \<and> validateForm td (roundTrip ts td f) = noErrors
   \<and> roundTrip ts td (roundTrip ts td f) = roundTrip ts td f"
proof -
  let ?g = "roundTrip ts td f"
  from v have e: "err_apiKey (validateForm td f) = None"
    "err_organizationId (validateForm td f) = None" "err_model (validateForm td f) = None"
    "err_maxTokens (validateForm td f) = None" "err_temperature (validateForm td f) = None"
    by (simp_all add: noErrors_iff)
  from e(3) have m: "form_model f \<noteq> []"
    by (auto simp: validateForm_def split: if_splits)
  from e(1) have k: "trim (form_apiKey f) \<noteq> []" "apiKeyPattern (trim (form_apiKey f))"
    by (auto simp: validateForm_def split: if_splits)
  from e(2) have o: "trim (form_organizationId f) = [] \<or> orgIdPattern (trim (form_organizationId f))"
    by (auto simp: validateForm_def split: if_splits)
  have model: "form_model ?g = form_model f"
    using m by (simp add: roundTrip_model orElse_def)
  have mt0: "form_maxTokens ?g = []" if "trim (form_maxTokens f) = []"
    using that by (simp add: roundTrip_maxTokens split: option.splits)
  have mt1: "\<exists>n. parseIntMV (form_maxTokens f) = Some n \<and> 1 \<le> n \<and> n \<le> 8192
      \<and> form_maxTokens ?g = showInt n" if ne: "trim (form_maxTokens f) \<noteq> []"
  proof -
    from valid_maxTokens [OF e(4) ne] obtain n where
      n: "parseIntMV (form_maxTokens f) = Some n" and r: "1 \<le> n" "n \<le> 8192" by blast
    from r have b: "\<bar>n\<bar> \<le> 2 ^ 53" by simp
    have "form_maxTokens ?g = showInt n"
      using ne n by (simp add: roundTrip_maxTokens numberToString_int [OF b])
    with n r show ?thesis by blast
  qed
  have mtg: "err_maxTokens (validateForm td ?g) = None
      \<and> form_maxTokens (roundTrip ts td ?g) = form_maxTokens ?g"
  proof (cases "trim (form_maxTokens f) = []")
    case True
    then show ?thesis
      by (simp add: mt0 err_maxTokens_cases roundTrip_maxTokens split: option.splits)
  next
    case False
    from mt1 [OF False] obtain n where r: "1 \<le> n" "n \<le> 8192"
      and g: "form_maxTokens ?g = showInt n" by blast
    from r have n0: "0 \<le> n" and b: "\<bar>n\<bar> \<le> 2 ^ 53" by simp_all
    have p: "parseIntMV (showInt n) = Some n" using n0 by (rule parseIntMV_showInt)
    have nb: "trim (showInt n) \<noteq> []"
      using wholeInteger_nonblank [OF wholeInteger_showInt [OF n0]] .
    have "err_maxTokens (validateForm td ?g) = None"
      unfolding err_maxTokens_cases g using r p nb by simp
    moreover have "form_maxTokens (roundTrip ts td ?g) = showInt n"
      unfolding roundTrip_maxTokens [of ts td "roundTrip ts td f"] g
      using p nb by (simp add: numberToString_int [OF b])
    ultimately show ?thesis by (simp add: g)
  qed
  have mtw: "form_maxTokens ?g = showInt n \<and> wholeInteger (form_maxTokens ?g) = Some n"
    if w: "wholeInteger (form_maxTokens f) = Some n" for n
  proof -
    from mt1 [OF wholeInteger_nonblank [OF w]] wholeInteger_parseIntMV [OF w]
    have g: "form_maxTokens ?g = showInt n" and "1 \<le> n" by auto
    then show ?thesis by (simp add: wholeInteger_showInt)
  qed
  have t0: "form_temperature ?g = []" if "trim (form_temperature f) = []"
    using that by (simp add: roundTrip_temperature)
  have t1: "\<exists>r. parseFloat td (form_temperature f) = Fin r \<and> 0 \<le> r \<and> r \<le> 2
      \<and> form_temperature ?g = numberToString ts (Fin r)
      \<and> parseFloat td (form_temperature ?g) = Fin r" if ne: "trim (form_temperature f) \<noteq> []"
  proof -
    from valid_temperature [OF e(5) ne] obtain r where
      x: "parseFloat td (form_temperature f) = Fin r" and r: "0 \<le> r" "r \<le> 2" by blast
    have g: "form_temperature ?g = numberToString ts (Fin r)"
      using ne x by (simp add: roundTrip_temperature)
    have "readsBack td ts (Fin r)"
    proof (cases "r \<in> \<int>")
      case True
      then show ?thesis using r by (rule readsBack_small_int)
    next
      case False
      with rb x show ?thesis by blast
    qed
    then have "parseFloat td (form_temperature ?g) = Fin r"
      by (simp add: g readsBack_def)
    with x r g show ?thesis by blast
  qed
  have tg: "err_temperature (validateForm td ?g) = None
      \<and> form_temperature (roundTrip ts td ?g) = form_temperature ?g"
  proof (cases "trim (form_temperature f) = []")
    case True
    then show ?thesis
      by (simp add: t0 err_temperature_cases roundTrip_temperature)
  next
    case False
    from t1 [OF False] obtain r where r: "0 \<le> r" "r \<le> 2"
      and g: "form_temperature ?g = numberToString ts (Fin r)"
      and p: "parseFloat td (form_temperature ?g) = Fin r" by blast
    have nb: "trim (form_temperature ?g) \<noteq> []"
      using parseFloat_blank [of "form_temperature ?g" td] p by auto
    have "err_temperature (validateForm td ?g) = None"
      unfolding err_temperature_cases using r p nb by simp
    moreover have "form_temperature (roundTrip ts td ?g) = numberToString ts (Fin r)"
      unfolding roundTrip_temperature [of ts td "roundTrip ts td f"]
      using p nb by simp
    ultimately show ?thesis by (simp add: g)
  qed
  have tw: "form_temperature ?g = numberToString ts (parseFloat td (form_temperature f))
      \<and> parseFloat td (form_temperature ?g) = parseFloat td (form_temperature f)"
    if w: "wholeDecimal (form_temperature f)"
    using t1 [OF wholeDecimal_nonblank [OF w]] by auto
  have kg: "err_apiKey (validateForm td ?g) = None"
    using k by (simp add: validateForm_def roundTrip_apiKey trim_idem)
  have og: "err_organizationId (validateForm td ?g) = None"
    using o by (auto simp: validateForm_def roundTrip_organizationId trim_idem)
  have mg: "err_model (validateForm td ?g) = None"
    using m by (simp add: validateForm_def model)
  have valid: "validateForm td ?g = noErrors"
    using kg og mg mtg tg by (simp add: noErrors_iff)
  have stable: "roundTrip ts td ?g = ?g"
  proof (rule formState.equality)
    show "form_apiKey (roundTrip ts td ?g) = form_apiKey ?g"
      by (simp add: roundTrip_apiKey trim_idem)
    show "form_organizationId (roundTrip ts td ?g) = form_organizationId ?g"
      by (simp add: roundTrip_organizationId trim_idem)
    show "form_model (roundTrip ts td ?g) = form_model ?g"
      using m by (simp add: roundTrip_model model orElse_def)
    show "form_maxTokens (roundTrip ts td ?g) = form_maxTokens ?g" using mtg by simp
    show "form_temperature (roundTrip ts td ?g) = form_temperature ?g" using tg by simp
  qed simp
  show ?thesis
    using roundTrip_apiKey [of ts td f] roundTrip_organizationId [of ts td f] model mt0 mtw
      t0 tw valid stable
    by (intro conjI allI impI) blast+
qed

theorem roundTrip_valid_witness:
  "validateForm exactRounding
      \<lparr>form_apiKey = ''  sk-abcdefghijklmnopqrstuvwxyzABCDEFGHIJ0123456789KL '', form_organizationId = [], form_model = ''gpt-4o'',
       form_maxTokens = ''0042'', form_temperature = ''0.50''\<rparr> = noErrors
   \<and> wholeInteger ''0042'' = Some 42
   \<and> wholeDecimal ''0.50''
   \<and> readsBack exactRounding (fracToStringOn [(1 / 2, ''0.5'')]) (Fin (1 / 2))
   \<and> roundTrip (fracToStringOn [(1 / 2, ''0.5'')]) exactRounding
      \<lparr>form_apiKey = ''  sk-abcdefghijklmnopqrstuvwxyzABCDEFGHIJ0123456789KL '', form_organizationId = [], form_model = ''gpt-4o'',
       form_maxTokens = ''0042'', form_temperature = ''0.50''\<rparr>
     = \<lparr>form_apiKey = ''sk-abcdefghijklmnopqrstuvwxyzABCDEFGHIJ0123456789KL'', form_organizationId = [], form_model = ''gpt-4o'',
       form_maxTokens = ''42'', form_temperature = ''0.5''\<rparr>
   \<and> validateForm exactRounding
      \<lparr>form_apiKey = ''sk-abcdefghijklmnopqrstuvwxyzABCDEFGHIJ0123456789KL'', form_organizationId = [], form_model = ''gpt-4'',
       form_maxTokens = '' '', form_temperature = ''2.0''\<rparr> = noErrors
   \<and> wholeDecimal ''2.0''
   \<and> roundTrip (fracToStringOn []) exactRounding
      \<lparr>form_apiKey = ''sk-abcdefghijklmnopqrstuvwxyzABCDEFGHIJ0123456789KL'', form_organizationId = [], form_model = ''gpt-4'',
       form_maxTokens = '' '', form_temperature = ''2.0''\<rparr>
     = \<lparr>form_apiKey = ''sk-abcdefghijklmnopqrstuvwxyzABCDEFGHIJ0123456789KL'', form_organizationId = [], form_model = ''gpt-4'',
       form_maxTokens = [], form_temperature = ''2''\<rparr>"
proof -
  let ?f = "\<lparr>form_apiKey = ''  sk-abcdefghijklmnopqrstuvwxyzABCDEFGHIJ0123456789KL '', form_organizationId = [], form_model = ''gpt-4o'',
       form_maxTokens = ''0042'', form_temperature = ''0.50''\<rparr>"
  let ?h = "\<lparr>form_apiKey = ''sk-abcdefghijklmnopqrstuvwxyzABCDEFGHIJ0123456789KL'', form_organizationId = [], form_model = ''gpt-4'',
       form_maxTokens = '' '', form_temperature = ''2.0''\<rparr>"
  let ?ts = "fracToStringOn [(1 / 2, ''0.5'')]"
  let ?no = "fracToStringOn []"
  have x: "parseFloat exactRounding ''0.50'' = Fin (1 / 2)"
    by (simp add: scan_defs half_not_int exactRounding_def)
  have y: "parseFloat exactRounding ''0.5'' = Fin (1 / 2)"
    by (simp add: scan_defs half_not_int exactRounding_def)
  have x2: "parseFloat exactRounding ''2.0'' = Fin 2"
    by (simp add: scan_defs)
  have n: "numberToString ?ts (Fin (1 / 2)) = ''0.5''"
    by (simp add: numberToString_def fracToStringOn_def half_not_int)
  have n2: "numberToString ?no (Fin 2) = ''2''"
    by (simp add: numberToString_def showInt_def showNat.simps)
  have rbk: "readsBack exactRounding ?ts (Fin (1 / 2))"
    by (simp add: readsBack_def n y)
  have p: "parseIntMV ''0042'' = Some 42"
    by (simp add: parseIntMV_def isWhiteSpace_def isDecDigit_def digitVal_def Let_def)
  have w: "wholeInteger ''0042'' = Some 42"
    by (simp add: wholeInteger_def trim_def scan_defs)
  have wd: "wholeDecimal ''0.50''" "wholeDecimal ''2.0''"
    by (simp_all add: wholeDecimal_def scan_defs)
  have v: "validateForm exactRounding ?f = noErrors"
    by (simp add: validateForm_def noErrors_def trim_def isWhiteSpace_def apiKeyPattern_def
        isAlnum_def parseInt_def p isNaN_def x Let_def)
  have v2: "validateForm exactRounding ?h = noErrors"
    by (simp add: validateForm_def noErrors_def trim_def isWhiteSpace_def apiKeyPattern_def
        isAlnum_def isNaN_def x2 Let_def)
  have rb: "\<forall>r. parseFloat exactRounding (form_temperature ?f) = Fin r \<and> r \<notin> \<int>
      \<longrightarrow> readsBack exactRounding ?ts (Fin r)"
  proof (intro allI impI)
    fix r
    assume "parseFloat exactRounding (form_temperature ?f) = Fin r \<and> r \<notin> \<int>"
    then have "Fin (1 / 2) = Fin r" by (simp add: x)
    then have "Fin r = Fin (1 / 2)" by (rule sym)
    then show "readsBack exactRounding ?ts (Fin r)" using rbk by (simp only:)
  qed
  have rb2: "\<forall>r. parseFloat exactRounding (form_temperature ?h) = Fin r \<and> r \<notin> \<int>
      \<longrightarrow> readsBack exactRounding ?no (Fin r)"
    by (simp add: x2)
  have s: "showInt 42 = ''42''" by (simp add: showInt_def showNat.simps)
  have k: "trim ''  sk-abcdefghijklmnopqrstuvwxyzABCDEFGHIJ0123456789KL '' = ''sk-abcdefghijklmnopqrstuvwxyzABCDEFGHIJ0123456789KL''"
    "trim ''sk-abcdefghijklmnopqrstuvwxyzABCDEFGHIJ0123456789KL'' = ''sk-abcdefghijklmnopqrstuvwxyzABCDEFGHIJ0123456789KL''" "trim '' '' = []"
    by (simp_all add: trim_def isWhiteSpace_def)
  have a: "roundTrip ?ts exactRounding ?f
     = \<lparr>form_apiKey = ''sk-abcdefghijklmnopqrstuvwxyzABCDEFGHIJ0123456789KL'', form_organizationId = [], form_model = ''gpt-4o'',
       form_maxTokens = ''42'', form_temperature = ''0.5''\<rparr>"
    using w wd roundTrip_valid [OF v rb]
    by (cases "roundTrip ?ts exactRounding ?f") (simp add: s k x n)
  have b: "roundTrip ?no exactRounding ?h
     = \<lparr>form_apiKey = ''sk-abcdefghijklmnopqrstuvwxyzABCDEFGHIJ0123456789KL'', form_organizationId = [], form_model = ''gpt-4'',
       form_maxTokens = [], form_temperature = ''2''\<rparr>"
    using wd roundTrip_valid [OF v2 rb2]
    by (cases "roundTrip ?no exactRounding ?h") (simp add: k x2 n2)
  from v w wd rbk a v2 b show ?thesis by (intro conjI)
qed

text \<open>
  The claim as stated fails: a key with a leading space passes validation, and the round
  trip does not give the same \<open>apiKey\<close> back.
\<close>

theorem roundTrip_counterexample:
  "validateForm exactRounding
      \<lparr>form_apiKey = '' sk-abcdefghijklmnopqrstuvwxyzABCDEFGHIJ0123456789KL'', form_organizationId = [], form_model = ''gpt-4o'',
       form_maxTokens = [], form_temperature = []\<rparr> = noErrors
   \<and> form_apiKey (roundTrip (fracToStringOn []) exactRounding
      \<lparr>form_apiKey = '' sk-abcdefghijklmnopqrstuvwxyzABCDEFGHIJ0123456789KL'', form_organizationId = [], form_model = ''gpt-4o'',
       form_maxTokens = [], form_temperature = []\<rparr>)
     \<noteq> '' sk-abcdefghijklmnopqrstuvwxyzABCDEFGHIJ0123456789KL''"
  by (simp add: validateForm_def noErrors_def trim_def isWhiteSpace_def apiKeyPattern_def
        isAlnum_def roundTrip_def settingsToFormData_def formDataToSettings_def orElse_def)

subsection \<open>formDataToSettings\<close>

text \<open>
  What \<open>formDataToSettings\<close> does with each field: an optional field is left out exactly
  when its source string is blank or, for a numeric field, when the parser reads no number
  at its start.
\<close>

lemma formDataToSettings_fields:
  "set_apiKey (formDataToSettings td f) = trim (form_apiKey f)
   \<and> set_model (formDataToSettings td f) = form_model f
   \<and> (set_organizationId (formDataToSettings td f) = None \<longleftrightarrow> trim (form_organizationId f) = [])
   \<and> (set_maxTokens (formDataToSettings td f) = None \<longleftrightarrow>
        trim (form_maxTokens f) = [] \<or> parseIntMV (form_maxTokens f) = None)
   \<and> (set_temperature (formDataToSettings td f) = None \<longleftrightarrow>
        trim (form_temperature f) = [] \<or> parseFloat td (form_temperature f) = NaN)
   \<and> set_maxTokens (formDataToSettings td f) \<noteq> Some NaN
   \<and> set_temperature (formDataToSettings td f) \<noteq> Some NaN"
  by (simp add: formDataToSettings_def Let_def isNaN_def parseInt_def split: option.splits)

text \<open>
  Claim C6. \<open>formDataToSettings\<close> is never to include an optional field whose source
  string is blank or is not a number. The code at an input where it departs: \<^verbatim>\<open>12abc\<close> and
  \<^verbatim>\<open>1.5x\<close> are not numerals, and the settings hold \<open>maxTokens\<close> 12 and \<open>temperature\<close> 1.5,
  the numbers the parsers read at the start of the strings.
\<close>

theorem formDataToSettings_prefix_included:
  "wholeInteger ''12abc'' = None
   \<and> \<not> wholeDecimal ''1.5x''
   \<and> formDataToSettings exactRounding
      \<lparr>form_apiKey = ''sk-abcdefghijklmnopqrstuvwxyzABCDEFGHIJ0123456789KL'', form_organizationId = [], form_model = ''gpt-4o'',
       form_maxTokens = ''12abc'', form_temperature = ''1.5x''\<rparr>
     = \<lparr>set_apiKey = ''sk-abcdefghijklmnopqrstuvwxyzABCDEFGHIJ0123456789KL'', set_organizationId = None, set_model = ''gpt-4o'',
        set_maxTokens = Some (Fin 12), set_temperature = Some (Fin (3 / 2))\<rparr>"
proof -
  note h = three_halves_not_int
  have p: "parseIntMV ''12abc'' = Some 12"
    by (simp add: parseIntMV_def isWhiteSpace_def isDecDigit_def digitVal_def Let_def)
  have x: "parseFloat exactRounding ''1.5x'' = Fin (3 / 2)"
    by (simp add: scan_defs h exactRounding_def)
  have w: "wholeInteger ''12abc'' = None"
    by (simp add: wholeInteger_def trim_def scan_defs)
  have wd: "\<not> wholeDecimal ''1.5x''"
    by (simp add: wholeDecimal_def scan_defs)
  show ?thesis
    using w wd
    by (simp add: formDataToSettings_def trim_def isWhiteSpace_def parseInt_def p x isNaN_def)
qed

section \<open>Properties of the service\<close>

subsection \<open>validateSettings\<close>

text \<open>
  Claim C10. A raw record passes the re-validation exactly when \<open>validateSettings\<close> yields
  settings for it. For every record that passes, the settings hold its \<open>apiKey\<close> and
  \<open>model\<close>, and an optional numeric field is in the settings exactly when its value in the
  record is a number and truthy (neither zero nor NaN). So a record with \<open>temperature\<close> equal
  to the number 0, a value inside the valid range, yields settings without \<open>temperature\<close>,
  and \<open>maxTokens\<close> equal to 0 is left out likewise.
\<close>

theorem validateSettings_numeric:
  "(validateSettings d \<noteq> None \<longleftrightarrow> passesRevalidation d)
   \<and> (passesRevalidation d \<longrightarrow>
        (\<exists>s. validateSettings d = Some s
           \<and> Str (set_apiKey s) = optChain d ''apiKey''
           \<and> Str (set_model s) = optChain d ''model''
           \<and> (\<forall>x. set_maxTokens s = Some x \<longleftrightarrow>
                 optChain d ''maxTokens'' = Num x \<and> x \<noteq> NaN \<and> x \<noteq> Fin 0)
           \<and> (\<forall>x. set_temperature s = Some x \<longleftrightarrow>
                 optChain d ''temperature'' = Num x \<and> x \<noteq> NaN \<and> x \<noteq> Fin 0)
           \<and> (optChain d ''maxTokens'' = Num (Fin 0) \<longrightarrow> set_maxTokens s = None)
           \<and> (optChain d ''temperature'' = Num (Fin 0) \<longrightarrow> set_temperature s = None)))"
proof -
  have n: "\<And>v z. truthyNumber v = Some z \<longleftrightarrow> v = Num z \<and> z \<noteq> NaN \<and> z \<noteq> Fin 0"
    by (auto simp: truthyNumber_def numTruthy_def split: jsval.splits)
  have z: "truthyNumber (Num (Fin 0)) = None"
    by (simp add: truthyNumber_def numTruthy_def)
  have am: "[] \<notin> set allowedModels" by (simp add: allowedModels_def)
  have a: "getProp d ''apiKey'' = Some (optChain d ''apiKey'')" if "passesRevalidation d"
    using that by (cases d) (simp_all add: passesRevalidation_def optChain_def)
  have p: "validateSettings d =
      Some \<lparr>set_apiKey = k,
        set_organizationId = truthyString (optChain d ''organizationId''),
        set_model = m,
        set_maxTokens = truthyNumber (optChain d ''maxTokens''),
        set_temperature = truthyNumber (optChain d ''temperature'')\<rparr>"
    if "passesRevalidation d" and "optChain d ''apiKey'' = Str k" and "optChain d ''model'' = Str m"
    for k m
    using that a [OF that(1)] am
    by (auto simp: validateSettings_def passesRevalidation_def truthyString_def)
  have q: "passesRevalidation d" if "validateSettings d \<noteq> None"
    using that
    by (auto simp: validateSettings_def passesRevalidation_def truthyString_def optChain_def
        split: option.splits jsval.splits if_splits)
  have r: "\<exists>k m. optChain d ''apiKey'' = Str k \<and> optChain d ''model'' = Str m"
    if "passesRevalidation d"
    using that by (auto simp: passesRevalidation_def split: jsval.splits)
  show ?thesis
  proof (intro conjI impI iffI)
    assume "validateSettings d \<noteq> None"
    then show "passesRevalidation d" by (rule q)
  next
    assume pr: "passesRevalidation d"
    from r [OF pr] obtain k m where
      km: "optChain d ''apiKey'' = Str k" "optChain d ''model'' = Str m" by blast
    from p [OF pr km] show "validateSettings d \<noteq> None" by simp
  next
    assume pr: "passesRevalidation d"
    from r [OF pr] obtain k m where
      km: "optChain d ''apiKey'' = Str k" "optChain d ''model'' = Str m" by blast
    show "\<exists>s. validateSettings d = Some s
           \<and> Str (set_apiKey s) = optChain d ''apiKey''
           \<and> Str (set_model s) = optChain d ''model''
           \<and> (\<forall>x. set_maxTokens s = Some x \<longleftrightarrow>
                 optChain d ''maxTokens'' = Num x \<and> x \<noteq> NaN \<and> x \<noteq> Fin 0)
           \<and> (\<forall>x. set_temperature s = Some x \<longleftrightarrow>
                 optChain d ''temperature'' = Num x \<and> x \<noteq> NaN \<and> x \<noteq> Fin 0)
           \<and> (optChain d ''maxTokens'' = Num (Fin 0) \<longrightarrow> set_maxTokens s = None)
           \<and> (optChain d ''temperature'' = Num (Fin 0) \<longrightarrow> set_temperature s = None)"
      unfolding p [OF pr km] by (simp add: km n z)
  qed
qed

theorem validateSettings_numeric_witness:
  "passesRevalidation (Obj [(''apiKey'', Str ''sk-test''), (''model'', Str ''gpt-4''),
       (''maxTokens'', Num (Fin 100)), (''temperature'', Num (Fin 0))])
   \<and> validateSettings (Obj [(''apiKey'', Str ''sk-test''), (''model'', Str ''gpt-4''),
       (''maxTokens'', Num (Fin 100)), (''temperature'', Num (Fin 0))])
     = Some \<lparr>set_apiKey = ''sk-test'', set_organizationId = None, set_model = ''gpt-4'',
         set_maxTokens = Some (Fin 100), set_temperature = None\<rparr>
   \<and> passesRevalidation (Obj [(''apiKey'', Str ''sk-test''), (''model'', Str ''gpt-4''),
       (''maxTokens'', Num (Fin 0)), (''temperature'', Num (Fin (1 / 2)))])
   \<and> validateSettings (Obj [(''apiKey'', Str ''sk-test''), (''model'', Str ''gpt-4''),
       (''maxTokens'', Num (Fin 0)), (''temperature'', Num (Fin (1 / 2)))])
     = Some \<lparr>set_apiKey = ''sk-test'', set_organizationId = None, set_model = ''gpt-4'',
         set_maxTokens = None, set_temperature = Some (Fin (1 / 2))\<rparr>"
proof -
  let ?d = "Obj [(''apiKey'', Str ''sk-test''), (''model'', Str ''gpt-4''),
       (''maxTokens'', Num (Fin 100)), (''temperature'', Num (Fin 0))]"
  let ?e = "Obj [(''apiKey'', Str ''sk-test''), (''model'', Str ''gpt-4''),
       (''maxTokens'', Num (Fin 0)), (''temperature'', Num (Fin (1 / 2)))]"
  have pr: "passesRevalidation ?d" "passesRevalidation ?e"
    by (simp_all add: passesRevalidation_def optChain_def allowedModels_def)
  have org: "\<And>d s. validateSettings d = Some s \<Longrightarrow> optChain d ''organizationId'' = Undefined
      \<Longrightarrow> set_organizationId s = None"
    by (auto simp: validateSettings_def truthyString_def split: option.splits if_splits)
  have a: "validateSettings ?d
     = Some \<lparr>set_apiKey = ''sk-test'', set_organizationId = None, set_model = ''gpt-4'',
         set_maxTokens = Some (Fin 100), set_temperature = None\<rparr>"
  proof -
    from validateSettings_numeric [of ?d] pr(1) obtain s where
      s: "validateSettings ?d = Some s"
      and k: "Str (set_apiKey s) = optChain ?d ''apiKey''"
      and m: "Str (set_model s) = optChain ?d ''model''"
      and mt: "\<forall>x. set_maxTokens s = Some x \<longleftrightarrow>
          optChain ?d ''maxTokens'' = Num x \<and> x \<noteq> NaN \<and> x \<noteq> Fin 0"
      and t: "optChain ?d ''temperature'' = Num (Fin 0) \<longrightarrow> set_temperature s = None"
      by blast
    from mt have mt': "set_maxTokens s = Some (Fin 100)" by (simp add: optChain_def)
    from t have t': "set_temperature s = None" by (simp add: optChain_def)
    from k m have km: "set_apiKey s = ''sk-test''" "set_model s = ''gpt-4''"
      by (simp_all add: optChain_def)
    have o: "set_organizationId s = None" using s by (rule org) (simp add: optChain_def)
    show ?thesis using s km mt' t' o by (cases s) simp
  qed
  have b: "validateSettings ?e
     = Some \<lparr>set_apiKey = ''sk-test'', set_organizationId = None, set_model = ''gpt-4'',
         set_maxTokens = None, set_temperature = Some (Fin (1 / 2))\<rparr>"
  proof -
    from validateSettings_numeric [of ?e] pr(2) obtain s where
      s: "validateSettings ?e = Some s"
      and k: "Str (set_apiKey s) = optChain ?e ''apiKey''"
      and m: "Str (set_model s) = optChain ?e ''model''"
      and t: "\<forall>x. set_temperature s = Some x \<longleftrightarrow>
          optChain ?e ''temperature'' = Num x \<and> x \<noteq> NaN \<and> x \<noteq> Fin 0"
      and mt: "optChain ?e ''maxTokens'' = Num (Fin 0) \<longrightarrow> set_maxTokens s = None"
      by blast
    from t have t': "set_temperature s = Some (Fin (1 / 2))" by (simp add: optChain_def)
    from mt have mt': "set_maxTokens s = None" by (simp add: optChain_def)
    from k m have km: "set_apiKey s = ''sk-test''" "set_model s = ''gpt-4''"
      by (simp_all add: optChain_def)
    have o: "set_organizationId s = None" using s by (rule org) (simp add: optChain_def)
    show ?thesis using s km mt' t' o by (cases s) simp
  qed
  from pr a b show ?thesis by (intro conjI)
qed

subsection \<open>testConnection\<close>

lemma getProp_notNullish: "notNullish v \<Longrightarrow> getProp v name = Some (optChain v name)"
  by (cases v) (simp_all add: notNullish_def optChain_def)

lemma mapIds_records:
  "list_all notNullish ms \<Longrightarrow> mapIds ms = Inr (map (\<lambda>m. optChain m ''id'') ms)"
  by (induction ms) (simp_all add: getProp_notNullish)

text \<open>
  Claim C8. For every successful response whose body holds a \<open>data\<close> array of model
  records, \<open>testConnection\<close> returns success with the message "Connection successful" and
  the \<open>id\<close> of every record, in the order of the array; a body with the one record
  \<^verbatim>\<open>gpt-4o\<close> gives the one model \<^verbatim>\<open>gpt-4o\<close>.
\<close>

theorem testConnection_success:
  assumes f: "fetch (buildRequest apiKey org) = Inr r"
    and ok: "resp_ok r"
    and b: "resp_json r = Inr body"
    and d: "getProp body ''data'' = Some (Arr recs)"
    and recs: "list_all notNullish recs"
  shows "testConnection rt fetch apiKey org =
    \<lparr>tc_success = True, tc_message = ''Connection successful'', tc_error = None,
     tc_models = Some (map (\<lambda>m. optChain m ''id'') recs)\<rparr>"
  using f ok b d mapIds_records [OF recs]
  by (simp add: testConnection_def)

theorem testConnection_success_witness:
  "testConnection (runtimeOn [] [])
     (fetchReturning (Inr \<lparr>resp_ok = True, resp_status = 200, resp_statusText = ''OK'',
        resp_json = Inr (Obj [(''object'', Str ''list''), (''data'', Arr [Obj [(''id'', Str ''gpt-4o'')]])])\<rparr>))
     ''sk-valid-key'' None
   = \<lparr>tc_success = True, tc_message = ''Connection successful'', tc_error = None,
      tc_models = Some [Str ''gpt-4o'']\<rparr>
   \<and> testConnection (runtimeOn [] [])
     (fetchReturning (Inr \<lparr>resp_ok = True, resp_status = 200, resp_statusText = ''OK'',
        resp_json = Inr (Obj [(''object'', Str ''list''), (''data'', Arr [Obj [(''id'', Str ''gpt-4o'')], Obj [(''id'', Str ''gpt-4'')],
          Obj [(''id'', Str ''gpt-3.5-turbo'')]])])\<rparr>))
     ''sk-valid-key'' None
   = \<lparr>tc_success = True, tc_message = ''Connection successful'', tc_error = None,
      tc_models = Some [Str ''gpt-4o'', Str ''gpt-4'', Str ''gpt-3.5-turbo'']\<rparr>"
proof -
  have a: "testConnection (runtimeOn [] [])
     (fetchReturning (Inr \<lparr>resp_ok = True, resp_status = 200, resp_statusText = ''OK'',
        resp_json = Inr (Obj [(''object'', Str ''list''), (''data'', Arr [Obj [(''id'', Str ''gpt-4o'')]])])\<rparr>))
     ''sk-valid-key'' None
   = \<lparr>tc_success = True, tc_message = ''Connection successful'', tc_error = None,
      tc_models = Some [Str ''gpt-4o'']\<rparr>"
  proof -
    have recs: "list_all notNullish [Obj [(''id'', Str ''gpt-4o'')]]"
      by (simp add: notNullish_def)
    have d: "getProp (Obj [(''object'', Str ''list''), (''data'', Arr [Obj [(''id'', Str ''gpt-4o'')]])]) ''data''
        = Some (Arr [Obj [(''id'', Str ''gpt-4o'')]])"
      by simp
    show ?thesis
      using testConnection_success [OF _ _ _ d recs,
          of "fetchReturning (Inr \<lparr>resp_ok = True, resp_status = 200, resp_statusText = ''OK'',
        resp_json = Inr (Obj [(''object'', Str ''list''), (''data'', Arr [Obj [(''id'', Str ''gpt-4o'')]])])\<rparr>)"
          "''sk-valid-key''" None
          "\<lparr>resp_ok = True, resp_status = 200, resp_statusText = ''OK'',
        resp_json = Inr (Obj [(''object'', Str ''list''), (''data'', Arr [Obj [(''id'', Str ''gpt-4o'')]])])\<rparr>" "runtimeOn [] []"]
      by (simp add: fetchReturning_def optChain_def)
  qed
  have b: "testConnection (runtimeOn [] [])
     (fetchReturning (Inr \<lparr>resp_ok = True, resp_status = 200, resp_statusText = ''OK'',
        resp_json = Inr (Obj [(''object'', Str ''list''), (''data'', Arr [Obj [(''id'', Str ''gpt-4o'')], Obj [(''id'', Str ''gpt-4'')],
          Obj [(''id'', Str ''gpt-3.5-turbo'')]])])\<rparr>))
     ''sk-valid-key'' None
   = \<lparr>tc_success = True, tc_message = ''Connection successful'', tc_error = None,
      tc_models = Some [Str ''gpt-4o'', Str ''gpt-4'', Str ''gpt-3.5-turbo'']\<rparr>"
  proof -
    have recs: "list_all notNullish [Obj [(''id'', Str ''gpt-4o'')], Obj [(''id'', Str ''gpt-4'')],
          Obj [(''id'', Str ''gpt-3.5-turbo'')]]"
      by (simp add: notNullish_def)
    have d: "getProp (Obj [(''object'', Str ''list''), (''data'', Arr [Obj [(''id'', Str ''gpt-4o'')], Obj [(''id'', Str ''gpt-4'')],
          Obj [(''id'', Str ''gpt-3.5-turbo'')]])]) ''data''
        = Some (Arr [Obj [(''id'', Str ''gpt-4o'')], Obj [(''id'', Str ''gpt-4'')],
          Obj [(''id'', Str ''gpt-3.5-turbo'')]])"
      by simp
    show ?thesis
      using testConnection_success [OF _ _ _ d recs,
          of "fetchReturning (Inr \<lparr>resp_ok = True, resp_status = 200, resp_statusText = ''OK'',
        resp_json = Inr (Obj [(''object'', Str ''list''), (''data'', Arr [Obj [(''id'', Str ''gpt-4o'')], Obj [(''id'', Str ''gpt-4'')],
          Obj [(''id'', Str ''gpt-3.5-turbo'')]])])\<rparr>)"
          "''sk-valid-key''" None
          "\<lparr>resp_ok = True, resp_status = 200, resp_statusText = ''OK'',
        resp_json = Inr (Obj [(''object'', Str ''list''), (''data'', Arr [Obj [(''id'', Str ''gpt-4o'')], Obj [(''id'', Str ''gpt-4'')],
          Obj [(''id'', Str ''gpt-3.5-turbo'')]])])\<rparr>" "runtimeOn [] []"]
      by (simp add: fetchReturning_def optChain_def)
  qed
  from a b show ?thesis by (rule conjI)
qed




subsection \<open>saveSettings\<close>

text \<open>
  Claim C2. For every settings object: when the remote write succeeds, \<open>saveSettings\<close>
  returns success with "Settings saved successfully" and leaves local storage as it was;
  when it does not and the local write goes through, it returns success with
  "Settings saved to local storage" and the serialized settings are stored under the
  settings key; the result is a failure exactly when the remote write did not succeed and
  the local write throws, and then it carries the message of what was thrown.
\<close>

theorem saveSettings_spec:
  "(remoteWriteSucceeds svc s \<longrightarrow>
      saveSettings rt svc ls s
        = (\<lparr>sv_success = True, sv_message = ''Settings saved successfully''\<rparr>, ls))
   \<and> (\<not> remoteWriteSucceeds svc s
        \<and> ls_setItem_throws ls settingsKey (JSON_stringify rt s) = None \<longrightarrow>
      fst (saveSettings rt svc ls s)
        = \<lparr>sv_success = True, sv_message = ''Settings saved to local storage''\<rparr>
      \<and> ls_items (snd (saveSettings rt svc ls s))
        = (ls_items ls)(settingsKey \<mapsto> JSON_stringify rt s))
   \<and> (sv_success (fst (saveSettings rt svc ls s)) = False \<longleftrightarrow>
        \<not> remoteWriteSucceeds svc s
        \<and> ls_setItem_throws ls settingsKey (JSON_stringify rt s) \<noteq> None)
   \<and> (\<forall>e. \<not> remoteWriteSucceeds svc s
        \<and> ls_setItem_throws ls settingsKey (JSON_stringify rt s) = Some e \<longrightarrow>
      saveSettings rt svc ls s
        = (\<lparr>sv_success = False, sv_message = errorMessage e ''Failed to save settings''\<rparr>, ls))"
  by (auto simp: saveSettings_def saveToLocalStorage_def setItem_def remoteWriteSucceeds_def
      Let_def split: option.splits sum.splits)

theorem saveSettings_spec_witness:
  "saveSettings sampleRuntime
      \<lparr>svc_api = Some (apiReturning (Inr Undefined) (Inr (Obj [(''success'', Bool True)])))\<rparr>
      (storageHolding [] None) sampleSettings
    = (\<lparr>sv_success = True, sv_message = ''Settings saved successfully''\<rparr>, storageHolding [] None)
   \<and> fst (saveSettings sampleRuntime
      \<lparr>svc_api = Some (apiReturning (Inr Undefined) (Inl (JsError ''API Error'')))\<rparr>
      (storageHolding [] None) sampleSettings)
    = \<lparr>sv_success = True, sv_message = ''Settings saved to local storage''\<rparr>
   \<and> ls_items (snd (saveSettings sampleRuntime
      \<lparr>svc_api = Some (apiReturning (Inr Undefined) (Inl (JsError ''API Error'')))\<rparr>
      (storageHolding [] None) sampleSettings)) settingsKey = Some sampleJson
   \<and> saveSettings sampleRuntime
      \<lparr>svc_api = Some (apiReturning (Inr Undefined) (Inl (JsError ''API Error'')))\<rparr>
      (storageHolding [] (Some (JsError ''Storage error''))) sampleSettings
    = (\<lparr>sv_success = False, sv_message = ''Storage error''\<rparr>,
       storageHolding [] (Some (JsError ''Storage error'')))"
proof -
  have ok: "remoteWriteSucceeds
      \<lparr>svc_api = Some (apiReturning (Inr Undefined) (Inr (Obj [(''success'', Bool True)])))\<rparr>
      sampleSettings"
    by (simp add: remoteWriteSucceeds_def apiReturning_def)
  have ko: "\<not> remoteWriteSucceeds
      \<lparr>svc_api = Some (apiReturning (Inr Undefined) (Inl (JsError ''API Error'')))\<rparr>
      sampleSettings"
    by (simp add: remoteWriteSucceeds_def apiReturning_def)
  have j: "JSON_stringify sampleRuntime sampleSettings = sampleJson"
    by (simp add: sampleRuntime_def runtimeOn_def)
  have w: "ls_setItem_throws (storageHolding [] None) settingsKey sampleJson = None"
    by (simp add: storageHolding_def)
  have t: "ls_setItem_throws (storageHolding [] (Some (JsError ''Storage error''))) settingsKey
      sampleJson = Some (JsError ''Storage error'')"
    by (simp add: storageHolding_def)
  show ?thesis
    using ok ko j w t
      saveSettings_spec [of
        "\<lparr>svc_api = Some (apiReturning (Inr Undefined) (Inr (Obj [(''success'', Bool True)])))\<rparr>"
        sampleSettings sampleRuntime "storageHolding [] None"]
      saveSettings_spec [of
        "\<lparr>svc_api = Some (apiReturning (Inr Undefined) (Inl (JsError ''API Error'')))\<rparr>"
        sampleSettings sampleRuntime "storageHolding [] None"]
      saveSettings_spec [of
        "\<lparr>svc_api = Some (apiReturning (Inr Undefined) (Inl (JsError ''API Error'')))\<rparr>"
        sampleSettings sampleRuntime "storageHolding [] (Some (JsError ''Storage error''))"]
    by (simp add: errorMessage_def)
qed

subsection \<open>loadSettings\<close>

text \<open>
  When the remote read resolves to a response with truthy \<open>data\<close>, \<open>loadSettings\<close> returns
  what \<open>validateSettings\<close> makes of it, whatever local storage holds.
\<close>

lemma loadSettings_remote_payload:
  assumes "svc_api svc = Some api"
    and "api_get api ''/api/settings/openai'' = Inr response"
    and "truthy response" and "truthy (optChain response ''data'')"
  shows "loadSettings rt svc ls = validateSettings (optChain response ''data'')"
  using assms by (simp add: loadSettings_def)

text \<open>
  Claim C1. A remote payload that fails the re-validation is not returned, and the claim
  has \<open>loadSettings\<close> then read local storage. The code at such an input: the remote
  payload has no \<open>model\<close>, local storage holds valid settings, and \<open>loadSettings\<close> returns
  nothing.
\<close>

theorem loadSettings_invalid_remote_no_fallback:
  "validateSettings (Obj [(''apiKey'', Str ''sk-remote-key'')]) = None
   \<and> loadFromLocalStorage sampleRuntime (storageHolding [(settingsKey, sampleJson)] None)
      = Some sampleSettings
   \<and> loadSettings sampleRuntime
      \<lparr>svc_api = Some (apiReturning
          (Inr (Obj [(''data'', Obj [(''apiKey'', Str ''sk-remote-key'')])])) (Inr Undefined))\<rparr>
      (storageHolding [(settingsKey, sampleJson)] None) = None"
proof -
  have v: "validateSettings (Obj [(''apiKey'', Str ''sk-remote-key'')]) = None"
    by (simp add: validateSettings_def optChain_def truthyString_def)
  have p: "JSON_parse sampleRuntime sampleJson
      = Inr (Obj [(''apiKey'', Str ''sk-valid-key''), (''model'', Str ''gpt-4o'')])"
    by (simp add: sampleRuntime_def runtimeOn_def)
  have ne: "sampleJson \<noteq> []" by (simp add: sampleJson_def)
  have l: "loadFromLocalStorage sampleRuntime (storageHolding [(settingsKey, sampleJson)] None)
      = Some sampleSettings"
    using ne
    by (simp add: loadFromLocalStorage_def getItem_def storageHolding_def p validateSettings_def
        optChain_def truthyString_def truthyNumber_def allowedModels_def sampleSettings_def)
  have r: "loadSettings sampleRuntime
      \<lparr>svc_api = Some (apiReturning
          (Inr (Obj [(''data'', Obj [(''apiKey'', Str ''sk-remote-key'')])])) (Inr Undefined))\<rparr>
      (storageHolding [(settingsKey, sampleJson)] None) = None"
    by (simp add: loadSettings_def apiReturning_def optChain_def v)
  from v l r show ?thesis by (intro conjI)
qed

end
